theory Spec2Isabelle
  imports Complex_Main "HOL-Library.AList"
begin

section \<open>Spreadsheet analysis and chart reconstruction: the embedded program\<close>

text \<open>
  The definitions follow \<^verbatim>\<open>src/lib/excelAnalyzer.ts\<close> (workbook analysis) and the chart
  renderer part of \<^verbatim>\<open>src/lib/openai.ts\<close> (cell references, chart XML, chart data).

  JavaScript strings are modelled as \<^typ>\<open>string\<close>: a character is a code unit below 256.
  Array indices, row numbers and loop counters are mathematical integers. JavaScript
  computes them in double precision, which is exact on integers below \<open>2 ^ 53\<close>: the
  model describes the program for references whose column index and row number stay below
  that bound (column names of at most eleven letters, row numbers of at most fifteen
  digits).
\<close>

subsection \<open>Column letters\<close>

text \<open>\<^verbatim>\<open>String.prototype.toUpperCase\<close>, on the ASCII letters (its only use is on column letters).\<close>

definition toUpperCase_char :: "char \<Rightarrow> char" where
  "toUpperCase_char c =
     (let n = of_char c :: int in if 97 \<le> n \<and> n \<le> 122 then char_of (n - 32) else c)"

definition toUpperCase :: "string \<Rightarrow> string" where
  "toUpperCase s = map toUpperCase_char s"

text \<open>
  \<^verbatim>\<open>getColumnLetter\<close> (excelAnalyzer.ts): the \<^verbatim>\<open>while (index >= 0)\<close> loop, with the
  loop variables \<^verbatim>\<open>index\<close> and \<^verbatim>\<open>letter\<close> as arguments.
\<close>

function getColumnLetter_loop :: "int \<Rightarrow> string \<Rightarrow> string" where
  "getColumnLetter_loop index letter =
     (if index \<ge> 0
      then getColumnLetter_loop (index div 26 - 1) (char_of (index mod 26 + 65) # letter)
      else letter)"
  by pat_completeness auto
termination
  by (relation "measure (\<lambda>(index, letter). nat (index + 1))") auto

definition getColumnLetter :: "int \<Rightarrow> string" where
  "getColumnLetter index = getColumnLetter_loop index []"

text \<open>\<^verbatim>\<open>colToNum\<close> (openai.ts): the \<^verbatim>\<open>for\<close> loop over the code units is a left fold.\<close>

definition colToNum :: "string \<Rightarrow> int" where
  "colToNum col = foldl (\<lambda>num c. num * 26 + (of_char c - 64)) 0 (toUpperCase col) - 1"

subsection \<open>Cell values\<close>

text \<open>
  A JavaScript number is a finite value, an infinity or \<open>NaN\<close>. Finite values are rationals;
  the two zeros are one value (the program only compares zeros with \<^verbatim>\<open>Set\<close> membership,
  \<^verbatim>\<open>===\<close> and \<^verbatim>\<open>isNaN\<close>, which do not tell them apart).
\<close>

datatype jsnum = Fin rat | PInf | NInf | NaN

text \<open>
  A cell of a sheet grid as the workbook reader delivers it: \<^verbatim>\<open>null\<close> for a blank cell,
  \<^verbatim>\<open>undefined\<close> for a position outside a row, a number, a string, a boolean, or a
  \<^verbatim>\<open>Date\<close> object, which carries the text that \<^verbatim>\<open>String(date)\<close> gives.
\<close>

datatype cell = Null | Undefined | Num jsnum | Str string | Bool bool | DateObj string

type_synonym grid = "cell list list"

subsection \<open>Numbers and \<^verbatim>\<open>parseFloat\<close>\<close>

definition isNaN :: "jsnum \<Rightarrow> bool" where
  "isNaN n = (n = NaN)"

definition isFinite :: "jsnum \<Rightarrow> bool" where
  "isFinite n = (case n of Fin r \<Rightarrow> True | _ \<Rightarrow> False)"

text \<open>\<^verbatim>\<open>Number.isInteger\<close>.\<close>

definition isInteger :: "jsnum \<Rightarrow> bool" where
  "isInteger n = (case n of Fin r \<Rightarrow> of_int \<lfloor>r\<rfloor> = r | _ \<Rightarrow> False)"

text \<open>
  Rounding of a rational to the nearest IEEE 754 double, ties to even: the value is scaled
  to a significand of 53 bits (fewer below \<open>2 ^ - 1022\<close>), rounded to an integer and
  scaled back; at \<open>2 ^ 1024\<close> and above the result is an infinity.
\<close>

function bitLength :: "int \<Rightarrow> int" where
  "bitLength n = (if n \<le> 0 then 0 else 1 + bitLength (n div 2))"
  by pat_completeness auto
termination
  by (relation "measure nat") auto

definition pow2 :: "int \<Rightarrow> int" where
  "pow2 k = 2 ^ nat k"

text \<open>For positive \<open>p\<close> and \<open>q\<close>, the integer \<open>e\<close> with \<open>2 ^ e \<le> p / q < 2 ^ (e + 1)\<close>.\<close>

definition floor_log2 :: "int \<Rightarrow> int \<Rightarrow> int" where
  "floor_log2 p q =
     (let d = bitLength p - bitLength q
      in if (if 0 \<le> d then q * pow2 d \<le> p else q \<le> p * pow2 (- d)) then d else d - 1)"

text \<open>The integer nearest to \<open>num / den\<close> for positive \<open>den\<close>, the even one at a tie.\<close>

definition round_half_even :: "int \<Rightarrow> int \<Rightarrow> int" where
  "round_half_even num den =
     (let f = num div den; r = num mod den
      in if 2 * r < den then f else if den < 2 * r then f + 1 else if even f then f else f + 1)"

definition round_double :: "rat \<Rightarrow> jsnum" where
  "round_double r =
     (if r = 0 then Fin 0
      else let (p, q) = quotient_of \<bar>r\<bar>;
               e = max (floor_log2 p q) (- 1022);
               m = (if e \<le> 52 then round_half_even (p * pow2 (52 - e)) q
                    else round_half_even p (q * pow2 (e - 52)));
               v = (if e \<le> 52 then of_int m / of_int (pow2 (52 - e))
                    else of_int (m * pow2 (e - 52)))
           in if of_int (pow2 1024) \<le> v then (if r < 0 then NInf else PInf)
              else Fin (if r < 0 then - v else v))"

text \<open>
  White space of \<^verbatim>\<open>\s\<close>, of \<^verbatim>\<open>trim\<close> and of the start of \<^verbatim>\<open>parseFloat\<close>, among the
  code units below 256: tab, line feed, vertical tab, form feed, carriage return, space and
  the no-break space.
\<close>

definition isSpace :: "char \<Rightarrow> bool" where
  "isSpace c = (of_char c \<in> {9, 10, 11, 12, 13, 32, 160 :: nat})"

definition isDigit :: "char \<Rightarrow> bool" where
  "isDigit c = (let n = of_char c :: nat in 48 \<le> n \<and> n \<le> 57)"

definition startsWith :: "string \<Rightarrow> string \<Rightarrow> bool" where
  "startsWith s lit = (take (length lit) s = lit)"

definition digitsValue :: "string \<Rightarrow> int" where
  "digitsValue ds = foldl (\<lambda>n c. n * 10 + (of_char c - 48)) 0 ds"

definition pow10 :: "int \<Rightarrow> rat" where
  "pow10 k = (if 0 \<le> k then 10 ^ nat k else 1 / 10 ^ nat (- k))"

text \<open>
  The exponent of a decimal literal: \<^verbatim>\<open>e\<close> or \<^verbatim>\<open>E\<close>, an optional sign and at least one
  digit; 0 when the text does not start with such a part.
\<close>

definition exponentPart :: "string \<Rightarrow> int" where
  "exponentPart s =
     (case s of
        [] \<Rightarrow> 0
      | e # r \<Rightarrow>
          if e = CHR ''e'' \<or> e = CHR ''E'' then
            (case r of
               [] \<Rightarrow> 0
             | sg # r' \<Rightarrow>
                 if sg = CHR ''-'' then
                   (if takeWhile isDigit r' = [] then 0 else - digitsValue (takeWhile isDigit r'))
                 else if sg = CHR ''+'' then digitsValue (takeWhile isDigit r')
                 else digitsValue (takeWhile isDigit r))
          else 0)"

text \<open>
  The longest prefix that is an unsigned decimal literal of the language
  (\<^verbatim>\<open>Infinity\<close>, digits with an optional fraction, or a fraction that starts with the
  point, each with an optional exponent), as a number; \<open>NaN\<close> when there is none.
\<close>

definition unsignedLiteral :: "string \<Rightarrow> jsnum" where
  "unsignedLiteral u =
     (if startsWith u ''Infinity'' then PInf
      else let ip = takeWhile isDigit u; r1 = dropWhile isDigit u in
        (case r1 of
           dot # r \<Rightarrow>
             if dot = CHR ''.'' then
               (let fp = takeWhile isDigit r in
                if ip = [] \<and> fp = [] then NaN
                else round_double (of_int (digitsValue (ip @ fp)) *
                       pow10 (exponentPart (dropWhile isDigit r) - int (length fp))))
             else if ip = [] then NaN
             else round_double (of_int (digitsValue ip) * pow10 (exponentPart r1))
         | [] \<Rightarrow> if ip = [] then NaN else round_double (of_int (digitsValue ip))))"

definition negate :: "jsnum \<Rightarrow> jsnum" where
  "negate n = (case n of Fin r \<Rightarrow> Fin (- r) | PInf \<Rightarrow> NInf | NInf \<Rightarrow> PInf | NaN \<Rightarrow> NaN)"

text \<open>The global function \<^verbatim>\<open>parseFloat\<close>: leading white space, an optional sign, a literal.\<close>

definition parseFloat :: "string \<Rightarrow> jsnum" where
  "parseFloat s =
     (case dropWhile isSpace s of
        [] \<Rightarrow> NaN
      | c # r \<Rightarrow>
          if c = CHR ''-'' then negate (unsignedLiteral r)
          else if c = CHR ''+'' then unsignedLiteral r
          else unsignedLiteral (c # r))"

text \<open>
  \<^verbatim>\<open>String(v)\<close>. The conversion of a number to text is a parameter of the model,
  \<open>numberToString\<close>: every statement below holds for any such function.
\<close>

definition String_js :: "(jsnum \<Rightarrow> string) \<Rightarrow> cell \<Rightarrow> string" where
  "String_js numberToString v =
     (case v of
        Null \<Rightarrow> ''null''
      | Undefined \<Rightarrow> ''undefined''
      | Num n \<Rightarrow> numberToString n
      | Str s \<Rightarrow> s
      | Bool b \<Rightarrow> (if b then ''true'' else ''false'')
      | DateObj d \<Rightarrow> d)"

text \<open>\<^verbatim>\<open>String.prototype.trim\<close>.\<close>

definition trim :: "string \<Rightarrow> string" where
  "trim s = rev (dropWhile isSpace (rev (dropWhile isSpace s)))"

subsection \<open>Cell reference resolver (openai.ts)\<close>

definition isLetter :: "char \<Rightarrow> bool" where
  "isLetter c = (let n = of_char c :: nat in (65 \<le> n \<and> n \<le> 90) \<or> (97 \<le> n \<and> n \<le> 122))"

text \<open>\<^verbatim>\<open>String.prototype.split\<close> with a separator of one character.\<close>

fun split_on :: "char \<Rightarrow> string \<Rightarrow> string list" where
  "split_on sep [] = [[]]"
| "split_on sep (c # cs) =
     (if c = sep then [] # split_on sep cs
      else (case split_on sep cs of p # ps \<Rightarrow> (c # p) # ps | [] \<Rightarrow> [[c]]))"

text \<open>The characters that \<^verbatim>\<open>.\<close> of a regular expression does not match.\<close>

definition lineTerminator :: "char \<Rightarrow> bool" where
  "lineTerminator c = (c = CHR 0x0A \<or> c = CHR 0x0D)"

text \<open>
  The regular expression \<^verbatim>\<open>/^'([^']+)'!(.+)$/\<close>: a quote, the longest run of characters
  other than the quote (not empty), a quote, \<^verbatim>\<open>!\<close>, and a rest (not empty) without line
  terminators. The result is the pair of the two groups.
\<close>

definition quotedMatch :: "string \<Rightarrow> (string \<times> string) option" where
  "quotedMatch ref =
     (case ref of
        [] \<Rightarrow> None
      | q # rest \<Rightarrow>
          if q \<noteq> CHR 0x27 then None
          else let sheet = takeWhile (\<lambda>c. c \<noteq> CHR 0x27) rest in
            (case dropWhile (\<lambda>c. c \<noteq> CHR 0x27) rest of
               q' # b # rng \<Rightarrow>
                 if sheet \<noteq> [] \<and> b = CHR ''!'' \<and> rng \<noteq> [] \<and> \<not> list_ex lineTerminator rng
                 then Some (sheet, rng) else None
             | _ \<Rightarrow> None))"

text \<open>\<^verbatim>\<open>parseCellReference\<close>: the optional sheet qualifier and the range text.\<close>

definition parseCellReference :: "string \<Rightarrow> string option \<times> string" where
  "parseCellReference ref =
     (case quotedMatch ref of
        Some (sheet, rng) \<Rightarrow> (Some sheet, rng)
      | None \<Rightarrow>
         (case split_on CHR ''!'' ref of
            [sheet, rng] \<Rightarrow> (Some sheet, rng)
          | _ \<Rightarrow> (None, ref)))"

text \<open>\<^verbatim>\<open>parseInt\<close> on a string of decimal digits (the group \<^verbatim>\<open>(\d+)\<close>).\<close>

definition parseInt :: "string \<Rightarrow> int" where
  "parseInt ds = digitsValue ds"

text \<open>
  The prefix \<^verbatim>\<open>([A-Z]+)(\d+)\<close> under the flag \<^verbatim>\<open>i\<close>: the longest run of letters and the
  longest run of digits after it, both not empty, and the text that follows. Letters and
  digits are disjoint classes, so a shorter run cannot make the expression match.
\<close>

definition cellMatch :: "string \<Rightarrow> (string \<times> string \<times> string) option" where
  "cellMatch s =
     (let letters = takeWhile isLetter s; r = dropWhile isLetter s;
          digits = takeWhile isDigit r
      in if letters \<noteq> [] \<and> digits \<noteq> [] then Some (letters, digits, dropWhile isDigit r) else None)"

text \<open>\<^verbatim>\<open>/^([A-Z]+)(\d+):([A-Z]+)(\d+)$/i\<close>, giving the four groups.\<close>

definition rangeMatch :: "string \<Rightarrow> (string \<times> string \<times> string \<times> string) option" where
  "rangeMatch cleaned =
     (case cellMatch cleaned of
        Some (c1, r1, sep # rest) \<Rightarrow>
          (if sep = CHR '':'' then
             (case cellMatch rest of Some (c2, r2, []) \<Rightarrow> Some (c1, r1, c2, r2) | _ \<Rightarrow> None)
           else None)
      | _ \<Rightarrow> None)"

text \<open>\<^verbatim>\<open>/^([A-Z]+)(\d+)$/i\<close>, giving the two groups.\<close>

definition singleCellMatch :: "string \<Rightarrow> (string \<times> string) option" where
  "singleCellMatch cleaned =
     (case cellMatch cleaned of Some (c, r, []) \<Rightarrow> Some (c, r) | _ \<Rightarrow> None)"

record CellRange =
  startCol :: int
  startRow :: int
  endCol :: int
  endRow :: int
  isSingleCell :: bool

definition parseRange :: "string \<Rightarrow> CellRange option" where
  "parseRange rng =
     (let cleaned = filter (\<lambda>c. c \<noteq> CHR ''$'') rng in
      case rangeMatch cleaned of
        Some (c1, r1, c2, r2) \<Rightarrow>
          Some \<lparr>startCol = colToNum c1, startRow = parseInt r1 - 1,
                endCol = colToNum c2, endRow = parseInt r2 - 1, isSingleCell = False\<rparr>
      | None \<Rightarrow>
          (case singleCellMatch cleaned of
             Some (c, r) \<Rightarrow>
               (let col = colToNum c; row = parseInt r - 1 in
                Some \<lparr>startCol = col, startRow = row, endCol = col, endRow = row,
                      isSingleCell = True\<rparr>)
           | None \<Rightarrow> None))"

text \<open>
  \<^verbatim>\<open>sheetData[row]?.[col]\<close>: reading outside the grid or outside a row gives
  \<^verbatim>\<open>undefined\<close>.
\<close>

definition cellAt :: "grid \<Rightarrow> int \<Rightarrow> int \<Rightarrow> cell" where
  "cellAt sheetData row col =
     (if 0 \<le> row \<and> row < int (length sheetData)
      then (let r = sheetData ! nat row in
            if 0 \<le> col \<and> col < int (length r) then r ! nat col else Undefined)
      else Undefined)"

text \<open>The test \<^verbatim>\<open>val !== null && val !== undefined && val !== ''\<close>.\<close>

definition nonBlank :: "cell \<Rightarrow> bool" where
  "nonBlank val = (val \<noteq> Null \<and> val \<noteq> Undefined \<and> val \<noteq> Str [])"

text \<open>
  \<^verbatim>\<open>extractDataFromSheet\<close>. The function has no \<^verbatim>\<open>throw\<close> and calls nothing that can
  raise on a string and an array of arrays, so its result is a plain list. A loop
  \<^verbatim>\<open>for (row = a; row <= b && row < sheetData.length; row++)\<close> visits the rows from
  \<open>a\<close> to the smaller of \<open>b\<close> and the last row of the grid; each visited cell that passes
  the blank test is pushed.
\<close>

definition extractDataFromSheet :: "grid \<Rightarrow> string \<Rightarrow> cell list" where
  "extractDataFromSheet sheetData reference =
     (let rng = snd (parseCellReference reference) in
      case parseRange rng of
        None \<Rightarrow> []
      | Some parsed \<Rightarrow>
          if isSingleCell parsed then
            (let val = cellAt sheetData (startRow parsed) (startCol parsed) in
             if val \<noteq> Null \<and> val \<noteq> Undefined then [val] else [])
          else if startCol parsed = endCol parsed then
            filter nonBlank
              (map (\<lambda>row. cellAt sheetData row (startCol parsed))
                 [startRow parsed .. min (endRow parsed) (int (length sheetData) - 1)])
          else if startRow parsed = endRow parsed then
            filter nonBlank
              (map (\<lambda>col. cellAt sheetData (startRow parsed) col)
                 [startCol parsed .. endCol parsed])
          else
            concat (map (\<lambda>col.
                filter nonBlank
                  (map (\<lambda>row. cellAt sheetData row col)
                     [startRow parsed .. min (endRow parsed) (int (length sheetData) - 1)]))
              [startCol parsed .. endCol parsed]))"

text \<open>
  The resolver as the specification words it: the cells of the range, column by column and
  inside a column row by row, leaving out the blank ones.
\<close>

definition column_major_values :: "grid \<Rightarrow> CellRange \<Rightarrow> cell list" where
  "column_major_values sheetData p =
     concat (map (\<lambda>col. concat (map (\<lambda>row.
         (let val = cellAt sheetData row col in
          if val = Null \<or> val = Undefined \<or> val = Str [] then [] else [val]))
       [startRow p .. endRow p])) [startCol p .. endCol p])"

subsection \<open>Chart definition parser (openai.ts)\<close>

text \<open>\<^verbatim>\<open>String.prototype.includes\<close>.\<close>

fun includes_str :: "string \<Rightarrow> string \<Rightarrow> bool" where
  "includes_str [] lit = (lit = [])"
| "includes_str (c # cs) lit = (startsWith (c # cs) lit \<or> includes_str cs lit)"

text \<open>
  \<^verbatim>\<open>String.prototype.match\<close> with an expression that is not anchored: the matcher \<open>m\<close>
  of the expression is tried at every position from the left, and the first success is the
  result.
\<close>

fun regex_search :: "(string \<Rightarrow> 'a option) \<Rightarrow> string \<Rightarrow> 'a option" where
  "regex_search m [] = m []"
| "regex_search m (c # cs) = (case m (c # cs) of Some r \<Rightarrow> Some r | None \<Rightarrow> regex_search m cs)"

text \<open>
  \<^verbatim>\<open>TAG\s+val="([^"]+)"\<close> at the start of \<open>s\<close>: the tag, white space (not empty), the
  text \<^verbatim>\<open>val="\<close>, the longest run of characters other than the double quote (not empty)
  and a double quote. The result is the run.
\<close>

definition attrValMatch :: "string \<Rightarrow> string \<Rightarrow> string option" where
  "attrValMatch tag s =
     (if startsWith s tag then
        (let r1 = drop (length tag) s; r2 = dropWhile isSpace r1 in
         if takeWhile isSpace r1 \<noteq> [] \<and> startsWith r2 (''val='' @ [CHR 0x22]) then
           (let r3 = drop 5 r2; v = takeWhile (\<lambda>c. c \<noteq> CHR 0x22) r3 in
            if v \<noteq> [] \<and> dropWhile (\<lambda>c. c \<noteq> CHR 0x22) r3 \<noteq> [] then Some v else None)
         else None)
      else None)"

text \<open>
  \<^verbatim>\<open>OPEN([^<]+)CLOSE\<close> at the start of \<open>s\<close>, for a closing text that starts with
  \<^verbatim>\<open><\<close>: the result is the longest run of characters other than \<^verbatim>\<open><\<close>.
\<close>

definition textRun :: "string \<Rightarrow> string \<Rightarrow> string \<Rightarrow> string option" where
  "textRun opn cls s =
     (if startsWith s opn then
        (let r = drop (length opn) s; g = takeWhile (\<lambda>c. c \<noteq> CHR ''<'') r in
         if g \<noteq> [] \<and> startsWith (dropWhile (\<lambda>c. c \<noteq> CHR ''<'') r) cls then Some g else None)
      else None)"

text \<open>
  \<^verbatim>\<open>TAG[\s\S]*?K\<close> at the start of \<open>s\<close>: after the tag, the lazy star skips as little
  as possible, so \<open>K\<close> is taken at the first position where it matches.
\<close>

definition afterTag :: "string \<Rightarrow> (string \<Rightarrow> 'a option) \<Rightarrow> string \<Rightarrow> 'a option" where
  "afterTag tag k s = (if startsWith s tag then regex_search k (drop (length tag) s) else None)"

text \<open>The first occurrence of a text: what is before it and what is after it.\<close>

fun find_lit :: "string \<Rightarrow> string \<Rightarrow> (string \<times> string) option" where
  "find_lit lit [] = (if lit = [] then Some ([], []) else None)"
| "find_lit lit (c # cs) =
     (if startsWith (c # cs) lit then Some ([], drop (length lit) (c # cs))
      else (case find_lit lit cs of Some (b, a) \<Rightarrow> Some (c # b, a) | None \<Rightarrow> None))"

lemma find_lit_length: "find_lit lit s = Some (b, a) \<Longrightarrow> length a + length lit \<le> length s"
proof (induction s arbitrary: b)
  case Nil
  then show ?case by (auto split: if_splits)
next
  case (Cons c cs)
  show ?case
  proof (cases "startsWith (c # cs) lit")
    case True
    then have "length (take (length lit) (c # cs)) = length lit"
      by (simp only: startsWith_def)
    then have "length lit \<le> length (c # cs)"
      by simp
    with Cons.prems True show ?thesis by auto
  next
    case False
    with Cons show ?thesis by (fastforce split: option.splits)
  qed
qed

text \<open>
  The loop \<^verbatim>\<open>while ((seriesMatch = seriesRegex.exec(xml)) !== null)\<close> over
  \<^verbatim>\<open>/<c:ser>([\s\S]*?)<\/c:ser>/g\<close>: the group of each match in turn. A match starts at
  the first opening tag and ends at the first closing tag after it; the next search starts
  behind that closing tag.
\<close>

function series_blocks :: "string \<Rightarrow> string list" where
  "series_blocks xml =
     (case find_lit ''<c:ser>'' xml of
        None \<Rightarrow> []
      | Some (before, r) \<Rightarrow>
          (case find_lit ''</c:ser>'' r of
             None \<Rightarrow> []
           | Some (content, rest) \<Rightarrow> content # series_blocks rest))"
  by pat_completeness auto
termination
proof (relation "measure length")
  fix xml x2 before r x2a content rest
  assume "find_lit ''<c:ser>'' xml = Some x2" "(before, r) = x2"
    "find_lit ''</c:ser>'' r = Some x2a" "(content, rest) = x2a"
  then have "length r + length ''<c:ser>'' \<le> length xml"
    "length rest + length ''</c:ser>'' \<le> length r"
    by (auto dest: find_lit_length)
  then show "(rest, xml) \<in> measure length" by simp
qed simp

record SeriesRef =
  sr_name :: "string option"
  sr_valueRef :: string
  sr_color :: "string option"

record ParsedChartInfo =
  pi_chartType :: string
  pi_horizontal :: bool
  pi_stacked :: bool
  pi_title :: "string option"
  pi_xAxisTitle :: "string option"
  pi_yAxisTitle :: "string option"
  pi_categoryRef :: "string option"
  pi_seriesRefs :: "SeriesRef list"

text \<open>The body of the series loop: \<open>None\<close> when the series has no value reference.\<close>

definition parseSeries :: "string \<Rightarrow> SeriesRef option" where
  "parseSeries seriesXml =
     (let nameMatch1 = regex_search (afterTag ''<c:tx>'' (textRun ''<c:v>'' ''</c:v>'')) seriesXml;
          valMatch = regex_search (afterTag ''<c:val>'' (textRun ''<c:f>'' ''</c:f>'')) seriesXml;
          valueRef = (case valMatch of
                        Some v \<Rightarrow> Some v
                      | None \<Rightarrow>
                          regex_search (afterTag ''<c:yVal>'' (textRun ''<c:f>'' ''</c:f>'')) seriesXml);
          colorMatch = regex_search (attrValMatch ''<a:srgbClr'') seriesXml
      in case valueRef of
           Some v \<Rightarrow>
             Some \<lparr>sr_name = nameMatch1, sr_valueRef = v,
                   sr_color = map_option (\<lambda>c. CHR ''#'' # c) colorMatch\<rparr>
         | None \<Rightarrow> None)"

definition parseChartXml :: "string \<Rightarrow> ParsedChartInfo" where
  "parseChartXml xml =
     (let dirMatch = regex_search (attrValMatch ''<c:barDir'') xml;
          (chartType, horizontal) =
            (if includes_str xml ''<c:barChart'' then (''bar'', dirMatch = Some ''bar'')
             else if includes_str xml ''<c:bar3DChart'' then (''bar'', dirMatch = Some ''bar'')
             else if includes_str xml ''<c:lineChart'' \<or> includes_str xml ''<c:line3DChart''
               then (''line'', False)
             else if includes_str xml ''<c:pieChart'' \<or> includes_str xml ''<c:pie3DChart''
               then (''pie'', False)
             else if includes_str xml ''<c:doughnutChart'' then (''doughnut'', False)
             else if includes_str xml ''<c:scatterChart'' then (''scatter'', False)
             else if includes_str xml ''<c:areaChart'' \<or> includes_str xml ''<c:area3DChart''
               then (''area'', False)
             else if includes_str xml ''<c:radarChart'' then (''radar'', False)
             else (''bar'', False));
          groupingMatch = regex_search (attrValMatch ''<c:grouping'') xml;
          titleMatch = regex_search (afterTag ''<c:title>'' (textRun ''<a:t>'' ''</a:t>'')) xml;
          catAxisTitleMatch = regex_search
            (afterTag ''<c:catAx>'' (afterTag ''<c:title>'' (textRun ''<a:t>'' ''</a:t>''))) xml;
          valAxisTitleMatch = regex_search
            (afterTag ''<c:valAx>'' (afterTag ''<c:title>'' (textRun ''<a:t>'' ''</a:t>''))) xml;
          catMatch = regex_search (afterTag ''<c:cat>'' (textRun ''<c:f>'' ''</c:f>'')) xml;
          seriesRefs = List.map_filter parseSeries (series_blocks xml);
          title = map_option trim titleMatch
      in \<lparr>pi_chartType = chartType,
          pi_horizontal = horizontal,
          pi_stacked = (groupingMatch = Some ''stacked'' \<or> groupingMatch = Some ''percentStacked''),
          pi_title = (if (title = None \<or> title = Some []) \<and> seriesRefs \<noteq> [] \<and>
                         sr_name (hd seriesRefs) \<noteq> None \<and> sr_name (hd seriesRefs) \<noteq> Some []
                      then sr_name (hd seriesRefs) else title),
          pi_xAxisTitle = map_option trim catAxisTitleMatch,
          pi_yAxisTitle = map_option trim valAxisTitleMatch,
          pi_categoryRef = catMatch,
          pi_seriesRefs = seriesRefs\<rparr>)"

subsection \<open>Chart model builder (openai.ts)\<close>

record Dataset =
  ds_label :: string
  ds_data :: "jsnum list"
  ds_color :: "string option"

record ChartData =
  cd_type :: string
  cd_horizontal :: bool
  cd_stacked :: bool
  cd_title :: "string option"
  cd_xAxisTitle :: "string option"
  cd_yAxisTitle :: "string option"
  cd_labels :: "string list"
  cd_datasets :: "Dataset list"

text \<open>
  The conversion of the raw cells of one series in \<^verbatim>\<open>buildChartData\<close>:
  \<^verbatim>\<open>rawData.map(v => ...).filter(n => !isNaN(n) && isFinite(n))\<close>.
\<close>

definition seriesData :: "(jsnum \<Rightarrow> string) \<Rightarrow> cell list \<Rightarrow> jsnum list" where
  "seriesData numberToString rawData =
     filter (\<lambda>n. \<not> isNaN n \<and> isFinite n)
       (map (\<lambda>v. if v = Null \<or> v = Undefined \<or> v = Str [] then NaN
                 else (case v of Num n \<Rightarrow> n | _ \<Rightarrow> parseFloat (String_js numberToString v)))
          rawData)"

text \<open>The local \<^verbatim>\<open>labels\<close> of \<^verbatim>\<open>buildChartData\<close> before the lengths are normalised.\<close>

definition resolvedLabels :: "(jsnum \<Rightarrow> string) \<Rightarrow> ParsedChartInfo \<Rightarrow> grid \<Rightarrow> string list" where
  "resolvedLabels numberToString parsed sheetData =
     (case pi_categoryRef parsed of
        None \<Rightarrow> []
      | Some r \<Rightarrow>
          if r = [] then []
          else map (String_js numberToString) (extractDataFromSheet sheetData r))"

text \<open>The local \<^verbatim>\<open>datasets\<close> of \<^verbatim>\<open>buildChartData\<close> before the lengths are normalised.\<close>

definition resolvedDatasets :: "(jsnum \<Rightarrow> string) \<Rightarrow> ParsedChartInfo \<Rightarrow> grid \<Rightarrow> Dataset list" where
  "resolvedDatasets numberToString parsed sheetData =
     filter (\<lambda>ds. length (ds_data ds) > 0)
       (map (\<lambda>series.
           \<lparr>ds_label = (case sr_name series of
                           None \<Rightarrow> ''Series''
                         | Some n \<Rightarrow> if n = [] then ''Series'' else n),
            ds_data = seriesData numberToString (extractDataFromSheet sheetData (sr_valueRef series)),
            ds_color = sr_color series\<rparr>)
         (pi_seriesRefs parsed))"

text \<open>
  \<^verbatim>\<open>buildChartData\<close>; \<open>None\<close> is the result \<^verbatim>\<open>null\<close>. Nothing in the body of the
  \<^verbatim>\<open>try\<close> block raises on a string and a grid, so the \<^verbatim>\<open>catch\<close> branch is not taken.
\<close>

definition buildChartData :: "(jsnum \<Rightarrow> string) \<Rightarrow> string \<Rightarrow> grid \<Rightarrow> ChartData option" where
  "buildChartData numberToString chartXml sheetData =
     (let parsed = parseChartXml chartXml;
          labels = resolvedLabels numberToString parsed sheetData;
          datasets = resolvedDatasets numberToString parsed sheetData
      in if length datasets = 0 then None
         else
           (let dataLength = Min (set (map (\<lambda>ds. length (ds_data ds)) datasets));
                datasets = map (\<lambda>ds. ds\<lparr>ds_data := take dataLength (ds_data ds)\<rparr>) datasets;
                labels = (if length labels = 0
                          then map (\<lambda>i. numberToString (Fin (of_nat (i + 1)))) [0 ..< dataLength]
                          else take dataLength labels)
            in Some \<lparr>cd_type = pi_chartType parsed,
                     cd_horizontal = pi_horizontal parsed,
                     cd_stacked = pi_stacked parsed,
                     cd_title = pi_title parsed,
                     cd_xAxisTitle = pi_xAxisTitle parsed,
                     cd_yAxisTitle = pi_yAxisTitle parsed,
                     cd_labels = labels,
                     cd_datasets = datasets\<rparr>))"

subsection \<open>Column type classifier (excelAnalyzer.ts)\<close>

text \<open>
  \<^verbatim>\<open>String.prototype.toLowerCase\<close> on code units below 256: the letters A to Z and the
  accented capital letters.
\<close>

definition toLowerCase_char :: "char \<Rightarrow> char" where
  "toLowerCase_char c =
     (let n = of_char c :: int
      in if (65 \<le> n \<and> n \<le> 90) \<or> (192 \<le> n \<and> n \<le> 222 \<and> n \<noteq> 215) then char_of (n + 32)
         else c)"

definition toLowerCase :: "string \<Rightarrow> string" where
  "toLowerCase s = map toLowerCase_char s"

datatype RawColumnType = Numeric | Categorical | Text | Date | Boolean

text \<open>
  The date patterns are anchored sequences of digit runs of bounded length and single
  characters. A run \<^verbatim>\<open>\d{lo,hi}\<close> before a character that is not a digit, or before the
  end, matches exactly when the longest run of digits has a length from \<open>lo\<close> to \<open>hi\<close>.
\<close>

datatype pattern_item = Digits nat nat | Lit char

fun matchPattern :: "pattern_item list \<Rightarrow> string \<Rightarrow> bool" where
  "matchPattern [] s = (s = [])"
| "matchPattern (Lit c # ps) s = (case s of [] \<Rightarrow> False | x # xs \<Rightarrow> x = c \<and> matchPattern ps xs)"
| "matchPattern (Digits lo hi # ps) s =
     (let n = length (takeWhile isDigit s)
      in lo \<le> n \<and> n \<le> hi \<and> matchPattern ps (dropWhile isDigit s))"

definition isDateString :: "string \<Rightarrow> bool" where
  "isDateString str =
     (let t = trim str in
        matchPattern [Digits 4 4, Lit CHR ''-'', Digits 2 2, Lit CHR ''-'', Digits 2 2] t
      \<or> matchPattern [Digits 2 2, Lit CHR ''/'', Digits 2 2, Lit CHR ''/'', Digits 4 4] t
      \<or> matchPattern [Digits 2 2, Lit CHR ''-'', Digits 2 2, Lit CHR ''-'', Digits 4 4] t
      \<or> matchPattern [Digits 1 2, Lit CHR ''/'', Digits 1 2, Lit CHR ''/'', Digits 2 4] t
      \<or> list_ex (\<lambda>m. startsWith (toLowerCase t) m)
           [''jan'', ''feb'', ''mar'', ''apr'', ''may'', ''jun'',
            ''jul'', ''aug'', ''sep'', ''oct'', ''nov'', ''dec''])"

definition extractNumericValue :: "cell \<Rightarrow> jsnum option" where
  "extractNumericValue val =
     (case val of
        Num n \<Rightarrow> if \<not> isNaN n then Some n else None
      | Str s \<Rightarrow>
          (let cleaned = filter (\<lambda>c. c \<noteq> CHR '','' \<and> c \<noteq> CHR ''$'' \<and> c \<noteq> CHR ''%'' \<and> \<not> isSpace c) s;
               num = parseFloat cleaned
           in if \<not> isNaN num then Some num else None)
      | _ \<Rightarrow> None)"

text \<open>The counter that the loop of \<^verbatim>\<open>detectColumnType\<close> increments for one value.\<close>

datatype counter = NumericCount | DateCount | BooleanCount | TextCount

definition classifyValue :: "cell \<Rightarrow> counter" where
  "classifyValue val =
     (case val of
        Bool b \<Rightarrow> BooleanCount
      | Num n \<Rightarrow> if \<not> isNaN n then NumericCount else TextCount
      | DateObj d \<Rightarrow> DateCount
      | Str s \<Rightarrow>
          if s = ''true'' \<or> s = ''false'' \<or> s = ''TRUE'' \<or> s = ''FALSE'' then BooleanCount
          else (let num = parseFloat
                      (filter (\<lambda>c. c \<noteq> CHR '','' \<and> c \<noteq> CHR ''$'' \<and> c \<noteq> CHR ''%'') s)
                in if \<not> isNaN num \<and> trim s \<noteq> [] then NumericCount
                   else if isDateString s then DateCount
                   else TextCount)
      | _ \<Rightarrow> TextCount)"

definition CATEGORICAL_MAX_UNIQUE :: nat where
  "CATEGORICAL_MAX_UNIQUE = 20"

text \<open>
  The test \<^verbatim>\<open>count / total >= threshold\<close> with \<^verbatim>\<open>threshold = 0.8\<close>. The quotient of two
  array lengths is rounded to a double and compared with the double nearest to 0.8. The
  rounding is monotone and maps 4/5 to that double, and a quotient below 4/5 is at least
  \<open>1 / (5 * total)\<close> away from it, far more than the rounding error, so the test is the
  exact comparison with 4/5.
\<close>

definition reachesThreshold :: "nat \<Rightarrow> nat \<Rightarrow> bool" where
  "reachesThreshold count totalCount = ((4 :: rat) / 5 \<le> of_nat count / of_nat totalCount)"

text \<open>
  \<^verbatim>\<open>detectColumnType\<close>: the type and the optional \<^verbatim>\<open>uniqueCount\<close>. The \<^verbatim>\<open>Set\<close> of
  numbers is the list of the distinct values.
\<close>

definition detectColumnType :: "cell list \<Rightarrow> cell list \<Rightarrow> RawColumnType \<times> nat option" where
  "detectColumnType values allValues =
     (let nonNullValues = filter nonBlank values in
      if length nonNullValues = 0 then (Text, None)
      else
        (let numericCount = length (filter (\<lambda>v. classifyValue v = NumericCount) nonNullValues);
             dateCount = length (filter (\<lambda>v. classifyValue v = DateCount) nonNullValues);
             booleanCount = length (filter (\<lambda>v. classifyValue v = BooleanCount) nonNullValues);
             textCount = length (filter (\<lambda>v. classifyValue v = TextCount) nonNullValues);
             totalCount = length nonNullValues
         in if reachesThreshold booleanCount totalCount then (Boolean, None)
            else if reachesThreshold dateCount totalCount then (Date, None)
            else if reachesThreshold textCount totalCount then (Text, None)
            else if reachesThreshold numericCount totalCount then
              (let uniqueNums = remdups (List.map_filter extractNumericValue allValues);
                   uniqueCount = length uniqueNums
               in if uniqueCount \<le> CATEGORICAL_MAX_UNIQUE \<and> list_all isInteger uniqueNums
                  then (Categorical, Some uniqueCount)
                  else (Numeric, Some uniqueCount))
            else (Text, None)))"

text \<open>
  A numeric-like value as the specification words it: a native number, or a string that
  still parses as a number after the characters \<^verbatim>\<open>,\<close> \<^verbatim>\<open>$\<close> \<^verbatim>\<open>%\<close> are removed.
\<close>

definition numericLike :: "cell \<Rightarrow> bool" where
  "numericLike v =
     (case v of
        Num n \<Rightarrow> n \<noteq> NaN
      | Str s \<Rightarrow> parseFloat (filter (\<lambda>c. c \<noteq> CHR '','' \<and> c \<noteq> CHR ''$'' \<and> c \<noteq> CHR ''%'') s) \<noteq> NaN
      | _ \<Rightarrow> False)"

subsection \<open>Codebook extraction (excelAnalyzer.ts)\<close>

text \<open>Whether a value counts as true in \<^verbatim>\<open>v || ''\<close> and \<^verbatim>\<open>v ? a : b\<close>.\<close>

definition truthy :: "cell \<Rightarrow> bool" where
  "truthy v =
     (case v of
        Null \<Rightarrow> False
      | Undefined \<Rightarrow> False
      | Num n \<Rightarrow> n \<noteq> NaN \<and> n \<noteq> Fin 0
      | Str s \<Rightarrow> s \<noteq> []
      | Bool b \<Rightarrow> b
      | DateObj d \<Rightarrow> True)"

text \<open>\<^verbatim>\<open>row[i]\<close>: \<^verbatim>\<open>undefined\<close> outside the row.\<close>

definition elemAt :: "cell list \<Rightarrow> nat \<Rightarrow> cell" where
  "elemAt row i = (if i < length row then row ! i else Undefined)"

text \<open>
  \<^verbatim>\<open>/^column\s*[a-z]$/i\<close>: the word in any case, white space, one letter, the end.
\<close>

definition columnLetterPattern :: "string \<Rightarrow> bool" where
  "columnLetterPattern s =
     (startsWith (toLowerCase s) ''column'' \<and>
      (case dropWhile isSpace (drop 6 s) of [c] \<Rightarrow> isLetter c | _ \<Rightarrow> False))"

text \<open>
  The assignment \<^verbatim>\<open>codebook[key] = v\<close> on a plain object, kept as an association list.
  Assigning a string to the key \<^verbatim>\<open>__proto__\<close> creates no property.
\<close>

definition setProperty ::
  "(string \<times> string) list \<Rightarrow> string \<Rightarrow> string \<Rightarrow> (string \<times> string) list" where
  "setProperty obj key v = (if key = ''__proto__'' then obj else AList.update key v obj)"

definition firstCell :: "(jsnum \<Rightarrow> string) \<Rightarrow> cell list \<Rightarrow> string" where
  "firstCell numberToString row =
     trim (String_js numberToString (if truthy (elemAt row 0) then elemAt row 0 else Str []))"

definition secondCell :: "(jsnum \<Rightarrow> string) \<Rightarrow> cell list \<Rightarrow> string" where
  "secondCell numberToString row =
     trim (String_js numberToString (if truthy (elemAt row 1) then elemAt row 1 else Str []))"

definition thirdCell :: "(jsnum \<Rightarrow> string) \<Rightarrow> cell list \<Rightarrow> string" where
  "thirdCell numberToString row =
     (if truthy (elemAt row 2) then trim (String_js numberToString (elemAt row 2)) else [])"

text \<open>
  The body of the loop of \<^verbatim>\<open>extractCodebook\<close> for one row: the key and the value that
  the row assigns, or \<open>None\<close> when the row is passed over.
\<close>

definition rowEntry :: "(jsnum \<Rightarrow> string) \<Rightarrow> cell list \<Rightarrow> (string \<times> string) option" where
  "rowEntry numberToString row =
     (if length row < 2 then None
      else
        (let first = firstCell numberToString row;
             second = secondCell numberToString row;
             third = thirdCell numberToString row
         in if includes_str (toLowerCase first) ''column'' \<and>
               includes_str (toLowerCase second) ''variable'' then None
            else if columnLetterPattern first \<and> second \<noteq> [] then
              Some (second, if third \<noteq> [] then third else second)
            else if first \<noteq> [] \<and> second \<noteq> [] \<and> \<not> startsWith (toLowerCase first) ''column'' then
              Some (first, second)
            else None))"

definition extractCodebook :: "(jsnum \<Rightarrow> string) \<Rightarrow> grid \<Rightarrow> (string \<times> string) list option" where
  "extractCodebook numberToString data =
     (if length data < 2 then None
      else
        (let codebook = foldl (\<lambda>codebook row.
                 case rowEntry numberToString row of
                   None \<Rightarrow> codebook
                 | Some (key, v) \<Rightarrow> setProperty codebook key v) [] data
         in if length codebook > 0 then Some codebook else None))"

subsection \<open>Workbook analysis (excelAnalyzer.ts)\<close>

text \<open>
  The model covers \<^verbatim>\<open>analyzeExcelStructure\<close> from the sheet grids that the workbook reader
  delivers up to the list of sheet summaries and the codebook. The statistics and the sample
  rows of a sheet summary (floating-point arithmetic, read by no statement below) and the
  chart stage after the sheet loop (rendering and the external description service) are
  left out; the chart stage runs only after the check for valid sheets.
\<close>

record ColumnInfo =
  ci_header :: string
  ci_type :: RawColumnType
  ci_uniqueValues :: "nat option"

record ExcelSheetSummary =
  ss_name :: string
  ss_rowCount :: nat
  ss_columns :: "(string \<times> ColumnInfo) list"

record ExcelWorkbookSummary =
  ws_workbook :: string
  ws_sheets :: "ExcelSheetSummary list"
  ws_codebook :: "(string \<times> string) list option"

datatype error = NoValidSheets

definition isDescriptionSheet :: "string \<Rightarrow> bool" where
  "isDescriptionSheet sheetName =
     (toLowerCase sheetName \<in> set [''description'', ''codebook'', ''codes'', ''legend'',
        ''metadata'', ''info'', ''variables''])"

definition SAMPLE_SIZE :: nat where
  "SAMPLE_SIZE = 100"

text \<open>The body of the loop over the non-empty columns: the \<^verbatim>\<open>ColumnInfo\<close> of one column.\<close>

definition columnInfo :: "string list \<Rightarrow> grid \<Rightarrow> nat \<Rightarrow> ColumnInfo" where
  "columnInfo headers dataRows colIdx =
     (let colName = headers ! colIdx;
          sampleValues = map (\<lambda>row. elemAt row colIdx) (take SAMPLE_SIZE dataRows);
          allValues = map (\<lambda>row. elemAt row colIdx) dataRows;
          (type, uniqueCount) = detectColumnType sampleValues allValues
      in \<lparr>ci_header = colName, ci_type = type, ci_uniqueValues = uniqueCount\<rparr>)"

text \<open>
  The body of the second loop over the sheets: \<open>None\<close> when the sheet is passed over with
  \<^verbatim>\<open>continue\<close>, the summary that is pushed otherwise.
\<close>

definition analyzeSheet :: "(jsnum \<Rightarrow> string) \<Rightarrow> string \<times> grid \<Rightarrow> ExcelSheetSummary option" where
  "analyzeSheet numberToString sheet =
     (let (sheetName, data) = sheet in
      if length data < 2 then None
      else
        (let headerRow = data ! 0;
             headers = map (\<lambda>idx.
                 let cell = headerRow ! idx in
                 if cell = Null \<or> cell = Undefined \<or> cell = Str []
                 then ''Column '' @ numberToString (Fin (of_nat (idx + 1)))
                 else trim (String_js numberToString cell)) [0 ..< length headerRow];
             dataRows = drop 1 data;
             nonEmptyColumnIndices =
               filter (\<lambda>idx. list_ex (\<lambda>row. nonBlank (elemAt row idx)) dataRows)
                 [0 ..< length headers]
         in if length nonEmptyColumnIndices = 0 then None
            else
              Some \<lparr>ss_name = sheetName,
                    ss_rowCount = length (filter (\<lambda>row. list_ex nonBlank row) dataRows),
                    ss_columns = foldl (\<lambda>columns colIdx.
                        AList.update (getColumnLetter (int colIdx))
                          (columnInfo headers dataRows colIdx) columns)
                      [] nonEmptyColumnIndices\<rparr>))"

definition endsWith :: "string \<Rightarrow> string \<Rightarrow> bool" where
  "endsWith s lit = startsWith (rev s) (rev lit)"

text \<open>\<^verbatim>\<open>filename.replace(/\.(xlsx|xls|csv)$/i, '') || 'Workbook'\<close>.\<close>

definition workbookName :: "string \<Rightarrow> string" where
  "workbookName filename =
     (let lower = toLowerCase filename;
          stripped =
            (if endsWith lower ''.xlsx'' then take (length filename - 5) filename
             else if endsWith lower ''.xls'' \<or> endsWith lower ''.csv''
               then take (length filename - 4) filename
             else filename)
      in if stripped = [] then ''Workbook'' else stripped)"

text \<open>
  \<^verbatim>\<open>analyzeExcelStructure\<close> on the sheets of the workbook in the order of
  \<^verbatim>\<open>SheetNames\<close>, each with its grid. \<open>Inl NoValidSheets\<close> is
  \<^verbatim>\<open>throw new Error('No valid sheets found in workbook')\<close>.
\<close>

definition analyzeExcelStructure ::
  "(jsnum \<Rightarrow> string) \<Rightarrow> string \<Rightarrow> (string \<times> grid) list \<Rightarrow> error + ExcelWorkbookSummary" where
  "analyzeExcelStructure numberToString filename workbookSheets =
     (let codebook = foldl (\<lambda>codebook (sheetName, data).
               if isDescriptionSheet sheetName then extractCodebook numberToString data
               else codebook)
             None workbookSheets;
          sheets = List.map_filter (analyzeSheet numberToString) workbookSheets
      in if length sheets = 0 then Inl NoValidSheets
         else Inr \<lparr>ws_workbook = workbookName filename, ws_sheets = sheets,
                   ws_codebook = codebook\<rparr>)"

subsection \<open>Example documents\<close>

text \<open>A text between double quotes, for attribute values in chart XML.\<close>

definition quoted :: "string \<Rightarrow> string" where
  "quoted s = CHR 0x22 # s @ [CHR 0x22]"

text \<open>
  The decimal digits of a natural number, and an instance of the parameter
  \<open>numberToString\<close> for the examples: it gives what \<^verbatim>\<open>String(n)\<close> gives on \<open>NaN\<close>, on the
  infinities and on the integers below \<open>10 ^ 21\<close> in magnitude, the only numbers that the
  examples convert.
\<close>

function digitsOf :: "nat \<Rightarrow> string" where
  "digitsOf n = (if n < 10 then [char_of (48 + n)] else digitsOf (n div 10) @ [char_of (48 + n mod 10)])"
  by pat_completeness auto
termination
  by (relation "measure id") auto

definition decimalString :: "jsnum \<Rightarrow> string" where
  "decimalString n =
     (case n of
        NaN \<Rightarrow> ''NaN''
      | PInf \<Rightarrow> ''Infinity''
      | NInf \<Rightarrow> ''-Infinity''
      | Fin r \<Rightarrow> (if r < 0 then ''-'' else '''') @ digitsOf (nat \<lfloor>\<bar>r\<bar>\<rfloor>))"

definition example_chart_xml :: string where
  "example_chart_xml =
     ''<c:cat><c:f>A1:A5</c:f></c:cat>'' @
     ''<c:ser><c:val><c:f>B1:B5</c:f></c:val></c:ser>'' @
     ''<c:ser><c:val><c:f>C1:C5</c:f></c:val></c:ser>''"

definition example_grid_five_labels :: grid where
  "example_grid_five_labels =
     [[Str ''a'', Num (Fin 1), Num (Fin 10)],
      [Str ''b'', Num (Fin 2), Num (Fin 20)],
      [Str ''c'', Num (Fin 3), Num (Fin 30)],
      [Str ''d'', Num (Fin 4), Null],
      [Str ''e'', Num (Fin 5), Null]]"

definition example_grid_two_labels :: grid where
  "example_grid_two_labels =
     [[Str ''a'', Num (Fin 1), Num (Fin 10)],
      [Str ''b'', Num (Fin 2), Num (Fin 20)],
      [Null, Num (Fin 3), Num (Fin 30)],
      [Null, Num (Fin 4), Null],
      [Null, Num (Fin 5), Null]]"

definition example_series_xml :: string where
  "example_series_xml = ''<c:ser><c:val><c:f>A1:A2</c:f></c:val></c:ser>''"

definition example_grid_money :: grid where
  "example_grid_money = [[Str ''$5''], [Str ''1,234'']]"

subsection \<open>The direction attribute as the specification words it\<close>

text \<open>A text between single quotes.\<close>

definition squoted :: "string \<Rightarrow> string" where
  "squoted s = CHR 0x27 # s @ [CHR 0x27]"

text \<open>
  The value of the direction attribute read from the XML text itself, not through the
  program's expression: after the first \<^verbatim>\<open><c:barDir\<close>, white space, the name
  \<^verbatim>\<open>val\<close>, an equals sign that white space may surround, and the value between two
  double quotes or two single quotes, the two ways XML writes an attribute value.
\<close>

definition directionAttribute :: "string \<Rightarrow> string option" where
  "directionAttribute xml =
     (case find_lit ''<c:barDir'' xml of
        None \<Rightarrow> None
      | Some (before, r) \<Rightarrow>
          (let r1 = dropWhile isSpace r in
           if takeWhile isSpace r \<noteq> [] \<and> startsWith r1 ''val'' then
             (case dropWhile isSpace (drop 3 r1) of
                [] \<Rightarrow> None
              | eq # r2 \<Rightarrow>
                  if eq = CHR ''='' then
                    (case dropWhile isSpace r2 of
                       [] \<Rightarrow> None
                     | q # r3 \<Rightarrow>
                         if (q = CHR 0x22 \<or> q = CHR 0x27) \<and> q \<in> set r3
                         then Some (takeWhile (\<lambda>c. c \<noteq> q) r3) else None)
                  else None)
           else None))"

definition example_bar_xml :: string where
  "example_bar_xml = ''<c:barChart><c:barDir val='' @ quoted ''bar'' @ ''/></c:barChart>''"

definition example_col_xml :: string where
  "example_col_xml = ''<c:barChart><c:barDir val='' @ quoted ''col'' @ ''/></c:barChart>''"

definition example_bar_xml_single_quotes :: string where
  "example_bar_xml_single_quotes =
     ''<c:barChart><c:barDir val='' @ squoted ''bar'' @ ''/></c:barChart>''"

subsection \<open>Chart model builder: the coercion as amended\<close>

text \<open>
  The number that the builder takes from a cell: a native number as it is, the text of a
  string or of a date through \<^const>\<open>parseFloat\<close> with no character removed, and \<open>NaN\<close> for
  every other value.
\<close>

definition unstrippedNumber :: "cell \<Rightarrow> jsnum" where
  "unstrippedNumber v =
     (case v of
        Num n \<Rightarrow> n
      | Str s \<Rightarrow> parseFloat s
      | DateObj d \<Rightarrow> parseFloat d
      | _ \<Rightarrow> NaN)"

subsection \<open>Skipped sheets as the specification words them\<close>

text \<open>
  A column is non-empty when some data row holds a value that is not null and not blank; a
  sheet is skipped when it has fewer than two rows or no non-empty column among the columns
  of its header row.
\<close>

definition nonEmptyColumn :: "grid \<Rightarrow> nat \<Rightarrow> bool" where
  "nonEmptyColumn data idx = (\<exists>row \<in> set (drop 1 data). nonBlank (elemAt row idx))"

definition skippedSheet :: "grid \<Rightarrow> bool" where
  "skippedSheet data =
     (length data < 2 \<or> \<not> (\<exists>idx \<in> set [0 ..< length (data ! 0)]. nonEmptyColumn data idx))"

subsection \<open>Example sheets\<close>

definition example_workbook_skipped :: "(string \<times> grid) list" where
  "example_workbook_skipped =
     [(''Title'', [[Str ''Report'']]),
      (''Blank'', [[Str ''h1'', Str ''h2''], [Null, Str ''''], [Null, Null]])]"

definition example_scores_sheet :: "string \<times> grid" where
  "example_scores_sheet =
     (''Sheet1'', [[Str ''Name'', Str ''Score''],
                  [Str ''A'', Num (Fin 1)], [Str ''B'', Num (Fin 2)], [Str ''C'', Num (Fin 21)]])"

definition example_column_25 :: "cell list" where
  "example_column_25 = map (\<lambda>i. Num (Fin (of_int i))) [1 .. 24] @ [Str ''1,000'']"

definition example_column_20 :: "cell list" where
  "example_column_20 = map (\<lambda>i. Num (Fin (of_int i))) [1 .. 20] @ [Str ''n/a'', Null]"

definition example_description_sheet :: grid where
  "example_description_sheet =
     [[Str ''Column A'', Str ''Age'', Str ''Age in years''],
      [Str ''Column B'', Str ''Sex'', Str ''M/F'']]"

definition example_description_header :: grid where
  "example_description_header =
     [[Str ''Column A'', Str ''Variable'', Str ''Name of the variable''],
      [Str ''Column B'', Str ''Sex'', Str ''M/F'']]"

section \<open>Properties\<close>

subsection \<open>Column letters\<close>

lemma toUpperCase_char_upper:
  "65 \<le> (k::int) \<Longrightarrow> k \<le> 90 \<Longrightarrow> toUpperCase_char (char_of k) = char_of k"
  by (simp add: toUpperCase_char_def)

lemma of_char_column_letter:
  "(of_char (char_of (i mod 26 + 65 :: int) :: char) :: int) = i mod 26 + 65"
proof -
  have "0 \<le> i mod 26" "i mod 26 < 26" by simp_all
  then show ?thesis by simp
qed

lemma getColumnLetter_loop_upper:
  "toUpperCase (getColumnLetter_loop i letter) = getColumnLetter_loop i (toUpperCase letter)"
proof (induction i letter rule: getColumnLetter_loop.induct)
  case (1 index letter)
  show ?case
  proof (cases "index \<ge> 0")
    case True
    have "toUpperCase_char (char_of (index mod 26 + 65)) = char_of (index mod 26 + 65)"
      by (rule toUpperCase_char_upper) (use True in auto)
    with 1 True show ?thesis
      by (simp add: toUpperCase_def)
  next
    case False
    then show ?thesis by simp
  qed
qed

lemma foldl_getColumnLetter_loop:
  "- 1 \<le> i \<Longrightarrow>
   foldl (\<lambda>num c. num * 26 + (of_char c - 64)) (0::int) (getColumnLetter_loop i letter) =
   foldl (\<lambda>num c. num * 26 + (of_char c - 64)) (i + 1) letter"
proof (induction i letter rule: getColumnLetter_loop.induct)
  case (1 index letter)
  show ?case
  proof (cases "index \<ge> 0")
    case True
    have "index div 26 * 26 + (index mod 26 + 65 - 64) = index + 1"
      by simp
    with 1 True show ?thesis
      by (simp add: of_char_column_letter del: getColumnLetter_loop.simps
            add: getColumnLetter_loop.simps [of index letter])
  next
    case False
    with 1 have "index = - 1" by simp
    then show ?thesis by simp
  qed
qed

lemma colToNum_getColumnLetter_nonneg:
  assumes "0 \<le> n"
  shows "colToNum (getColumnLetter n) = n"
proof -
  have "toUpperCase [] = []"
    by (simp add: toUpperCase_def)
  then have "toUpperCase (getColumnLetter n) = getColumnLetter_loop n []"
    unfolding getColumnLetter_def getColumnLetter_loop_upper by (rule arg_cong)
  moreover have "foldl (\<lambda>num c. num * 26 + (of_char c - 64)) (0::int)
      (getColumnLetter_loop n []) = n + 1"
    using assms foldl_getColumnLetter_loop [of n "[]"] by simp
  ultimately show ?thesis
    by (simp add: colToNum_def)
qed

text \<open>
  Claim C5. For every index \<open>n\<close> from 0 to 1000, converting \<open>n\<close> to its column letters with
  \<^const>\<open>getColumnLetter\<close> and converting the letters back with \<^const>\<open>colToNum\<close> returns \<open>n\<close>.
\<close>

theorem column_letter_round_trip:
  "0 \<le> n \<Longrightarrow> n \<le> 1000 \<Longrightarrow> colToNum (getColumnLetter n) = n"
  by (rule colToNum_getColumnLetter_nonneg)

theorem column_letter_round_trip_witness:
  "(0::int) \<le> 701 \<and> (701::int) \<le> 1000 \<and> getColumnLetter 701 = ''ZZ'' \<and> colToNum ''ZZ'' = 701"
proof -
  have l: "getColumnLetter 701 = ''ZZ''"
    by code_simp
  have "colToNum (getColumnLetter 701) = 701"
    by (rule column_letter_round_trip) simp_all
  with l show ?thesis by simp
qed

subsection \<open>Cell reference resolver\<close>

lemma rows_beyond_grid:
  "filter nonBlank (map (\<lambda>row. cellAt g row col) [a .. min b (int (length g) - 1)]) =
   concat (map (\<lambda>row. (let val = cellAt g row col in
          if val = Null \<or> val = Undefined \<or> val = Str [] then [] else [val])) [a .. b])"
proof -
  let ?n = "int (length g)"
  let ?f = "\<lambda>row. (let val = cellAt g row col in
          if val = Null \<or> val = Undefined \<or> val = Str [] then [] else [val])"
  have flt: "filter nonBlank (map (\<lambda>row. cellAt g row col) xs) = concat (map ?f xs)" for xs
    by (induction xs) (auto simp: nonBlank_def Let_def)
  have beyond: "concat (map ?f xs) = []" if "\<forall>x \<in> set xs. ?n \<le> x" for xs
    using that by (induction xs) (auto simp: cellAt_def)
  show ?thesis
  proof (cases "b \<le> ?n - 1")
    case True
    then show ?thesis by (simp add: flt min_def)
  next
    case False
    then have m: "min b (?n - 1) = ?n - 1" by simp
    show ?thesis
    proof (cases "a \<le> ?n")
      case True
      with False have "[a .. b] = [a .. ?n - 1] @ [?n .. b]"
        by (intro upto_split1) auto
      then show ?thesis
        by (simp add: m flt beyond)
    next
      case False
      then show ?thesis
        by (simp add: m flt beyond)
    qed
  qed
qed

text \<open>
  Claim C6. For every grid and every reference whose range is a rectangle with more than one
  column and more than one row, \<^const>\<open>extractDataFromSheet\<close> returns the cells of the range
  column by column (rows inside a column), without the null and blank cells. On a grid of
  two columns and three rows the range \<^verbatim>\<open>A1:B3\<close> gives the three values of column A and
  then the three values of column B.
\<close>

theorem extract_2d_column_major:
  assumes "parseRange (snd (parseCellReference reference)) = Some p"
    and "startCol p \<noteq> endCol p" and "startRow p \<noteq> endRow p"
  shows "extractDataFromSheet sheetData reference = column_major_values sheetData p"
proof -
  have "\<not> isSingleCell p"
    using assms(1,2)
    by (auto simp: parseRange_def Let_def split: option.splits prod.splits)
  with assms show ?thesis
    by (simp add: extractDataFromSheet_def column_major_values_def rows_beyond_grid)
qed

theorem extract_2d_column_major_witness:
  "parseRange (snd (parseCellReference ''A1:B3'')) =
     Some \<lparr>startCol = 0, startRow = 0, endCol = 1, endRow = 2, isSingleCell = False\<rparr> \<and>
   extractDataFromSheet
     [[Str ''a1'', Num (Fin 10)], [Str ''a2'', Num (Fin 20)], [Str ''a3'', Num (Fin 30)]] ''A1:B3'' =
   [Str ''a1'', Str ''a2'', Str ''a3'', Num (Fin 10), Num (Fin 20), Num (Fin 30)]"
proof -
  let ?p = "\<lparr>startCol = 0, startRow = 0, endCol = 1, endRow = 2, isSingleCell = False\<rparr>"
  let ?g = "[[Str ''a1'', Num (Fin 10)], [Str ''a2'', Num (Fin 20)], [Str ''a3'', Num (Fin 30)]]"
  have p: "parseRange (snd (parseCellReference ''A1:B3'')) = Some ?p"
    by code_simp
  have v: "column_major_values ?g ?p =
      [Str ''a1'', Str ''a2'', Str ''a3'', Num (Fin 10), Num (Fin 20), Num (Fin 30)]"
    by code_simp
  have "extractDataFromSheet ?g ''A1:B3'' = column_major_values ?g ?p"
    by (rule extract_2d_column_major [OF p]) simp_all
  with p v show ?thesis by simp
qed

text \<open>
  Claim C9. For every grid and every reference whose range text, after the \<^verbatim>\<open>$\<close> anchors
  are removed, matches neither the rectangular-range pattern nor the single-cell pattern,
  \<^const>\<open>extractDataFromSheet\<close> returns the empty list. The function is total and has no
  error result.
\<close>

theorem unparsable_range_empty:
  assumes "rangeMatch (filter (\<lambda>c. c \<noteq> CHR ''$'') (snd (parseCellReference reference))) = None"
    and "singleCellMatch (filter (\<lambda>c. c \<noteq> CHR ''$'') (snd (parseCellReference reference))) = None"
  shows "extractDataFromSheet sheetData reference = []"
  using assms by (simp add: extractDataFromSheet_def parseRange_def)

theorem unparsable_range_empty_witness:
  "rangeMatch (filter (\<lambda>c. c \<noteq> CHR ''$'') (snd (parseCellReference ''Sheet1!$A:$B''))) = None \<and>
   singleCellMatch (filter (\<lambda>c. c \<noteq> CHR ''$'') (snd (parseCellReference ''Sheet1!$A:$B''))) = None \<and>
   extractDataFromSheet [[Num (Fin 1), Num (Fin 2)], [Num (Fin 3), Num (Fin 4)]] ''Sheet1!$A:$B'' = []"
proof -
  have a: "rangeMatch (filter (\<lambda>c. c \<noteq> CHR ''$'') (snd (parseCellReference ''Sheet1!$A:$B''))) = None"
    by code_simp
  have b: "singleCellMatch (filter (\<lambda>c. c \<noteq> CHR ''$'') (snd (parseCellReference ''Sheet1!$A:$B''))) = None"
    by code_simp
  from a b unparsable_range_empty [OF a b] show ?thesis by simp
qed

subsection \<open>Chart definition parser\<close>

text \<open>
  In both bar branches the flag is the comparison of the first match of the program's
  expression for the direction with \<^verbatim>\<open>bar\<close>.
\<close>

lemma horizontal_dirMatch:
  assumes "includes_str xml ''<c:barChart'' \<or> includes_str xml ''<c:bar3DChart''"
  shows "pi_horizontal (parseChartXml xml) =
           (regex_search (attrValMatch ''<c:barDir'') xml = Some ''bar'')"
  using assms by (auto simp: parseChartXml_def Let_def)

lemma startsWith_append_self: "startsWith (lit @ a) lit"
  by (simp add: startsWith_def)

lemma startsWith_take_drop: "startsWith s lit \<Longrightarrow> lit @ drop (length lit) s = s"
  by (metis append_take_drop_id startsWith_def)

lemma find_lit_decompose: "find_lit lit s = Some (b, a) \<Longrightarrow> s = b @ lit @ a"
proof (induction s arbitrary: b)
  case Nil
  then show ?case by (auto split: if_splits)
next
  case (Cons c cs)
  show ?case
  proof (cases "startsWith (c # cs) lit")
    case True
    with Cons.prems startsWith_take_drop [OF True] show ?thesis by auto
  next
    case False
    with Cons show ?thesis by (auto split: option.splits)
  qed
qed

lemma regex_search_first_occurrence:
  assumes "find_lit tag s = Some (b, a)"
    and "\<And>t. \<not> startsWith t tag \<Longrightarrow> m t = None"
    and "m (tag @ a) = Some r"
  shows "regex_search m s = Some r"
  using assms(1)
proof (induction s arbitrary: b)
  case Nil
  then have "tag = []" "a = []" by (auto split: if_splits)
  with assms(3) show ?case by simp
next
  case (Cons c cs)
  show ?case
  proof (cases "startsWith (c # cs) tag")
    case True
    with Cons.prems have "a = drop (length tag) (c # cs)" by simp
    with startsWith_take_drop [OF True] have "tag @ a = c # cs" by simp
    with assms(3) show ?thesis by simp
  next
    case False
    then have "m (c # cs) = None" by (rule assms(2))
    moreover from False Cons.prems obtain b' where "find_lit tag cs = Some (b', a)"
      by (auto split: option.splits)
    ultimately show ?thesis using Cons.IH by simp
  qed
qed

lemma regex_search_no_occurrence:
  assumes "find_lit tag s = None"
    and "\<And>t. \<not> startsWith t tag \<Longrightarrow> m t = None"
  shows "regex_search m s = None"
  using assms(1)
proof (induction s)
  case Nil
  then have "tag \<noteq> []" by (auto split: if_splits)
  then have "\<not> startsWith [] tag" by (auto simp: startsWith_def)
  then show ?case using assms(2) by simp
next
  case (Cons c cs)
  then have f: "\<not> startsWith (c # cs) tag" "find_lit tag cs = None"
    by (auto split: if_splits option.splits)
  from f(1) have "m (c # cs) = None" by (rule assms(2))
  with f(2) Cons.IH show ?case by simp
qed

lemma attrValMatch_not_tag: "\<not> startsWith t tag \<Longrightarrow> attrValMatch tag t = None"
  by (simp add: attrValMatch_def)

lemma attrValMatch_attribute:
  assumes "ws \<noteq> []" and "list_all isSpace ws" and "v \<noteq> []" and "CHR 0x22 \<notin> set v"
  shows "attrValMatch tag (tag @ ws @ ''val='' @ quoted v @ rest) = Some v"
proof -
  let ?r2 = "''val='' @ quoted v @ rest"
  have sp: "\<forall>c \<in> set ws. isSpace c"
    using assms(2) by (simp add: list_all_iff)
  have v0: "\<not> isSpace CHR ''v''"
    by (simp add: isSpace_def)
  have tw: "takeWhile isSpace (ws @ ?r2) = ws"
    using sp v0 by (simp add: takeWhile_append2)
  have dw: "dropWhile isSpace (ws @ ?r2) = ?r2"
    using sp v0 by (simp add: dropWhile_append2)
  have nq: "\<forall>c \<in> set v. c \<noteq> CHR 0x22"
    using assms(4) by auto
  have r3: "drop 5 ?r2 = v @ CHR 0x22 # rest"
    by (simp add: quoted_def)
  have tv: "takeWhile (\<lambda>c. c \<noteq> CHR 0x22) (v @ CHR 0x22 # rest) = v"
    using nq by (simp add: takeWhile_append2)
  have dv: "dropWhile (\<lambda>c. c \<noteq> CHR 0x22) (v @ CHR 0x22 # rest) = CHR 0x22 # rest"
    using nq by (simp add: dropWhile_append2)
  have sw: "startsWith ?r2 (''val='' @ [CHR 0x22])"
    by (simp add: startsWith_def quoted_def)
  have dt: "drop (length tag) (tag @ ws @ ?r2) = ws @ ?r2"
    by simp
  have "attrValMatch tag (tag @ ws @ ?r2) =
      (if ws \<noteq> [] \<and> True then
         (if v \<noteq> [] \<and> CHR 0x22 # rest \<noteq> [] then Some v else None)
       else None)"
    unfolding attrValMatch_def Let_def
    by (simp only: startsWith_append_self if_True dt tw dw sw r3 tv dv)
  with assms(1,3) show ?thesis by simp
qed

lemma directionAttribute_attribute:
  assumes "find_lit ''<c:barDir'' xml = Some (before, ws @ ''val='' @ quoted v @ rest)"
    and "ws \<noteq> []" and "list_all isSpace ws" and "CHR 0x22 \<notin> set v"
  shows "directionAttribute xml = Some v"
proof -
  let ?r2 = "''val='' @ quoted v @ rest"
  have sp: "\<forall>c \<in> set ws. isSpace c"
    using assms(3) by (simp add: list_all_iff)
  have v0: "\<not> isSpace CHR ''v''"
    by (simp add: isSpace_def)
  have tw: "takeWhile isSpace (ws @ ?r2) = ws"
    using sp v0 by (simp add: takeWhile_append2)
  have dw: "dropWhile isSpace (ws @ ?r2) = ?r2"
    using sp v0 by (simp add: dropWhile_append2)
  have nq: "\<forall>c \<in> set v. c \<noteq> CHR 0x22"
    using assms(4) by auto
  have sw: "startsWith ?r2 ''val''"
    by (simp add: startsWith_def)
  have d3: "dropWhile isSpace (drop 3 ?r2) = CHR ''='' # CHR 0x22 # v @ CHR 0x22 # rest"
    by (simp add: quoted_def isSpace_def)
  have d4: "dropWhile isSpace (CHR 0x22 # v @ CHR 0x22 # rest) = CHR 0x22 # v @ CHR 0x22 # rest"
    by (simp add: isSpace_def)
  have tv: "takeWhile (\<lambda>c. c \<noteq> CHR 0x22) (v @ CHR 0x22 # rest) = v"
    using nq by (simp add: takeWhile_append2)
  have m: "CHR 0x22 \<in> set (v @ CHR 0x22 # rest)"
    by simp
  show ?thesis
    unfolding directionAttribute_def assms(1)
    by (simp only: option.case prod.case Let_def tw dw sw d3 d4 list.case tv m assms(2)
        if_True simp_thms not_False_eq_True)
qed

text \<open>
  Claim C8, as amended. Take a chart XML that contains a bar-chart tag (\<^verbatim>\<open><c:barChart\<close>
  or \<^verbatim>\<open><c:bar3DChart\<close>). When the text \<^verbatim>\<open><c:barDir\<close> does not occur, there is no
  direction attribute and the horizontal flag is false. When the first occurrence of
  \<^verbatim>\<open><c:barDir\<close> is followed by white space, \<^verbatim>\<open>val=\<close> and a value between double
  quotes (not empty), that value is the direction attribute and the flag is true exactly
  when the value is \<^verbatim>\<open>bar\<close>, so it is false for \<^verbatim>\<open>col\<close>. Nothing is promised for a
  direction attribute written in another way.
\<close>

theorem bar_direction_first_attribute:
  assumes "includes_str xml ''<c:barChart'' \<or> includes_str xml ''<c:bar3DChart''"
  shows "(find_lit ''<c:barDir'' xml = None \<longrightarrow>
            directionAttribute xml = None \<and> pi_horizontal (parseChartXml xml) = False) \<and>
         (find_lit ''<c:barDir'' xml = Some (before, ws @ ''val='' @ quoted v @ rest) \<and>
          ws \<noteq> [] \<and> list_all isSpace ws \<and> v \<noteq> [] \<and> CHR 0x22 \<notin> set v \<longrightarrow>
            directionAttribute xml = Some v \<and>
            pi_horizontal (parseChartXml xml) = (v = ''bar''))"
proof (intro conjI impI)
  assume n: "find_lit ''<c:barDir'' xml = None"
  then show "directionAttribute xml = None"
    by (simp add: directionAttribute_def)
  from n have "regex_search (attrValMatch ''<c:barDir'') xml = None"
    by (rule regex_search_no_occurrence) (rule attrValMatch_not_tag)
  then show "pi_horizontal (parseChartXml xml) = False"
    unfolding horizontal_dirMatch [OF assms] by simp
next
  assume a: "find_lit ''<c:barDir'' xml = Some (before, ws @ ''val='' @ quoted v @ rest) \<and>
          ws \<noteq> [] \<and> list_all isSpace ws \<and> v \<noteq> [] \<and> CHR 0x22 \<notin> set v"
  then show "directionAttribute xml = Some v"
    by (intro directionAttribute_attribute) auto
  from a have "attrValMatch ''<c:barDir'' (''<c:barDir'' @ ws @ ''val='' @ quoted v @ rest) = Some v"
    by (intro attrValMatch_attribute) auto
  with a have "regex_search (attrValMatch ''<c:barDir'') xml = Some v"
    by (intro regex_search_first_occurrence [where b = before and a = "ws @ ''val='' @ quoted v @ rest"])
      (auto intro: attrValMatch_not_tag)
  then show "pi_horizontal (parseChartXml xml) = (v = ''bar'')"
    unfolding horizontal_dirMatch [OF assms] by simp
qed

theorem bar_direction_first_attribute_witness:
  "pi_horizontal (parseChartXml example_bar_xml) = True \<and>
   directionAttribute example_bar_xml = Some ''bar'' \<and>
   pi_horizontal (parseChartXml example_col_xml) = False \<and>
   directionAttribute example_col_xml = Some ''col'' \<and>
   pi_horizontal (parseChartXml ''<c:bar3DChart></c:bar3DChart>'') = False"
proof -
  let ?n = "''<c:bar3DChart></c:bar3DChart>''"
  have hb: "includes_str example_bar_xml ''<c:barChart'' \<or> includes_str example_bar_xml ''<c:bar3DChart''"
    by code_simp
  have hc: "includes_str example_col_xml ''<c:barChart'' \<or> includes_str example_col_xml ''<c:bar3DChart''"
    by code_simp
  have hn: "includes_str ?n ''<c:barChart'' \<or> includes_str ?n ''<c:bar3DChart''"
    by code_simp
  have fb: "find_lit ''<c:barDir'' example_bar_xml =
      Some (''<c:barChart>'', '' '' @ ''val='' @ quoted ''bar'' @ ''/></c:barChart>'')"
    by code_simp
  have fc: "find_lit ''<c:barDir'' example_col_xml =
      Some (''<c:barChart>'', '' '' @ ''val='' @ quoted ''col'' @ ''/></c:barChart>'')"
    by code_simp
  have fn: "find_lit ''<c:barDir'' ?n = None"
    by code_simp
  have sp: "list_all isSpace '' ''"
    by code_simp
  have b: "directionAttribute example_bar_xml = Some ''bar'' \<and>
      pi_horizontal (parseChartXml example_bar_xml) = (''bar'' = ''bar'')"
    using bar_direction_first_attribute [OF hb, where before = "''<c:barChart>''" and ws = "'' ''"
        and v = "''bar''" and rest = "''/></c:barChart>''"] fb sp
    by simp
  have c: "directionAttribute example_col_xml = Some ''col'' \<and>
      pi_horizontal (parseChartXml example_col_xml) = (''col'' = ''bar'')"
    using bar_direction_first_attribute [OF hc, where before = "''<c:barChart>''" and ws = "'' ''"
        and v = "''col''" and rest = "''/></c:barChart>''"] fc sp
    by simp
  have n: "directionAttribute ?n = None \<and> pi_horizontal (parseChartXml ?n) = False"
    using bar_direction_first_attribute [OF hn] fn by simp
  from b c n show ?thesis by simp
qed

text \<open>
  The claim as stated fails: the attribute below has the value \<^verbatim>\<open>bar\<close>, written
  between single quotes, and the flag is false.
\<close>

theorem bar_direction_single_quotes_counterexample:
  "includes_str example_bar_xml_single_quotes ''<c:barChart'' \<and>
   directionAttribute example_bar_xml_single_quotes = Some ''bar'' \<and>
   pi_horizontal (parseChartXml example_bar_xml_single_quotes) = False"
  by code_simp

subsection \<open>Chart model builder\<close>

lemma parseFloat_true: "parseFloat ''true'' = NaN"
  by code_simp

lemma parseFloat_false: "parseFloat ''false'' = NaN"
  by code_simp

lemma parseFloat_Nil: "parseFloat [] = NaN"
  by (simp add: parseFloat_def)

lemma seriesData_unstripped:
  "seriesData ns rawData = filter isFinite (map unstrippedNumber rawData)"
proof -
  have "(if v = Null \<or> v = Undefined \<or> v = Str [] then NaN
         else (case v of Num n \<Rightarrow> n | _ \<Rightarrow> parseFloat (String_js ns v))) = unstrippedNumber v" for v
    by (cases v) (simp_all add: unstrippedNumber_def String_js_def parseFloat_true
        parseFloat_false parseFloat_Nil)
  moreover have "(\<not> isNaN n \<and> isFinite n) = isFinite n" for n
    by (cases n) (simp_all add: isNaN_def isFinite_def)
  ultimately show ?thesis
    by (simp add: seriesData_def)
qed

lemma resolvedDatasets_data:
  "map ds_data (resolvedDatasets ns parsed g) =
   filter (\<lambda>d. d \<noteq> [])
     (map (\<lambda>series. filter isFinite (map unstrippedNumber
        (extractDataFromSheet g (sr_valueRef series)))) (pi_seriesRefs parsed))"
  by (simp add: resolvedDatasets_def filter_map comp_def seriesData_unstripped)

lemma buildChartData_Some:
  assumes "buildChartData ns xml g = Some cd"
  shows "resolvedDatasets ns (parseChartXml xml) g \<noteq> []"
    and "cd_datasets cd =
      map (\<lambda>ds. ds\<lparr>ds_data := take (Min (set (map (\<lambda>ds. length (ds_data ds))
          (resolvedDatasets ns (parseChartXml xml) g)))) (ds_data ds)\<rparr>)
        (resolvedDatasets ns (parseChartXml xml) g)"
    and "cd_labels cd =
      (if resolvedLabels ns (parseChartXml xml) g = []
       then map (\<lambda>i. ns (Fin (of_nat (i + 1))))
          [0 ..< Min (set (map (\<lambda>ds. length (ds_data ds)) (resolvedDatasets ns (parseChartXml xml) g)))]
       else take (Min (set (map (\<lambda>ds. length (ds_data ds))
          (resolvedDatasets ns (parseChartXml xml) g)))) (resolvedLabels ns (parseChartXml xml) g))"
  using assms by (auto simp: buildChartData_def Let_def split: if_splits)

lemma resolvedDatasets_nonempty_data:
  "ds \<in> set (resolvedDatasets ns parsed g) \<Longrightarrow> 0 < length (ds_data ds)"
  by (auto simp: resolvedDatasets_def)

text \<open>
  Claim C2, as amended. Whenever \<^const>\<open>buildChartData\<close> returns a chart, all its datasets have
  the same length \<open>n\<close>, the minimum length of the series that survive (so \<open>n\<close> is positive).
  The label list has length \<open>n\<close> when no label was resolved, and otherwise the smaller of
  \<open>n\<close> and the number of resolved labels: labels are cut, never padded. With two series of
  lengths 5 and 3 and five resolved labels, both datasets and the label list have length 3.
\<close>

theorem chart_lengths:
  assumes "buildChartData ns xml g = Some cd"
  shows "(\<forall>ds \<in> set (cd_datasets cd). length (ds_data ds) =
            Min (set (map (\<lambda>ds. length (ds_data ds)) (resolvedDatasets ns (parseChartXml xml) g)))) \<and>
         0 < Min (set (map (\<lambda>ds. length (ds_data ds)) (resolvedDatasets ns (parseChartXml xml) g))) \<and>
         length (cd_labels cd) =
           (if resolvedLabels ns (parseChartXml xml) g = []
            then Min (set (map (\<lambda>ds. length (ds_data ds)) (resolvedDatasets ns (parseChartXml xml) g)))
            else min (length (resolvedLabels ns (parseChartXml xml) g))
                (Min (set (map (\<lambda>ds. length (ds_data ds)) (resolvedDatasets ns (parseChartXml xml) g)))))"
proof -
  let ?D = "resolvedDatasets ns (parseChartXml xml) g"
  define n where "n = Min (set (map (\<lambda>ds. length (ds_data ds)) ?D))"
  note b = buildChartData_Some [OF assms, folded n_def]
  have ne: "set (map (\<lambda>ds. length (ds_data ds)) ?D) \<noteq> {}"
    using b(1) by simp
  have le: "n \<le> length (ds_data ds)" if "ds \<in> set ?D" for ds
    unfolding n_def using that by (intro Min_le) auto
  have "n \<in> set (map (\<lambda>ds. length (ds_data ds)) ?D)"
    unfolding n_def using ne by (intro Min_in) auto
  then have pos: "0 < n"
    using resolvedDatasets_nonempty_data by fastforce
  have "\<forall>ds \<in> set (cd_datasets cd). length (ds_data ds) = n"
    unfolding b(2) using le by (fastforce simp: min_def dest: le)
  moreover have "length (cd_labels cd) =
      (if resolvedLabels ns (parseChartXml xml) g = [] then n
       else min (length (resolvedLabels ns (parseChartXml xml) g)) n)"
    unfolding b(3) by simp
  ultimately show ?thesis using pos unfolding n_def by blast
qed

theorem chart_lengths_witness:
  "map_option cd_labels (buildChartData decimalString example_chart_xml example_grid_five_labels) =
     Some [''a'', ''b'', ''c''] \<and>
   map (\<lambda>ds. length (ds_data ds))
     (resolvedDatasets decimalString (parseChartXml example_chart_xml) example_grid_five_labels) = [5, 3] \<and>
   map_option (map ds_data \<circ> cd_datasets)
     (buildChartData decimalString example_chart_xml example_grid_five_labels) =
     Some [[Fin 1, Fin 2, Fin 3], [Fin 10, Fin 20, Fin 30]]"
proof -
  let ?r = "buildChartData decimalString example_chart_xml example_grid_five_labels"
  let ?cd = "\<lparr>cd_type = ''bar'', cd_horizontal = False, cd_stacked = False, cd_title = None,
      cd_xAxisTitle = None, cd_yAxisTitle = None, cd_labels = [''a'', ''b'', ''c''],
      cd_datasets = [\<lparr>ds_label = ''Series'', ds_data = [Fin 1, Fin 2, Fin 3], ds_color = None\<rparr>,
        \<lparr>ds_label = ''Series'', ds_data = [Fin 10, Fin 20, Fin 30], ds_color = None\<rparr>]\<rparr>"
  have e: "?r = Some ?cd"
    by code_simp
  have l: "map (\<lambda>ds. length (ds_data ds))
     (resolvedDatasets decimalString (parseChartXml example_chart_xml) example_grid_five_labels) = [5, 3]"
    by code_simp
  have "\<forall>ds \<in> set (cd_datasets ?cd). length (ds_data ds) = 3"
    using chart_lengths [OF e] by (simp add: l)
  with e l show ?thesis by simp
qed

text \<open>
  The claim as stated fails: with the same two series and only two non-blank category
  cells, the datasets have three points and the label list has two entries.
\<close>

theorem chart_labels_shorter_counterexample:
  "map_option cd_labels (buildChartData decimalString example_chart_xml example_grid_two_labels) =
     Some [''a'', ''b''] \<and>
   map_option (map ds_data \<circ> cd_datasets)
     (buildChartData decimalString example_chart_xml example_grid_two_labels) =
     Some [[Fin 1, Fin 2, Fin 3], [Fin 10, Fin 20, Fin 30]]"
  by code_simp

text \<open>
  Claim C3, as amended. Whenever \<^const>\<open>buildChartData\<close> returns a chart, the data of its
  datasets are, series by series, the finite numbers among the cells of the value reference
  (\<open>NaN\<close> and the infinities are filtered out), where a native number counts as it is and
  any other cell is read by \<^const>\<open>parseFloat\<close> from its text with no character removed;
  series without such a number are dropped and the others are cut to the common length.
\<close>

theorem chart_data_unstripped:
  assumes "buildChartData ns xml g = Some cd"
  shows "map ds_data (cd_datasets cd) =
     map (take (Min (set (map (\<lambda>ds. length (ds_data ds)) (resolvedDatasets ns (parseChartXml xml) g)))))
       (filter (\<lambda>d. d \<noteq> [])
          (map (\<lambda>series. filter isFinite (map unstrippedNumber
             (extractDataFromSheet g (sr_valueRef series)))) (pi_seriesRefs (parseChartXml xml))))"
proof -
  have "map ds_data (cd_datasets cd) =
      map (take (Min (set (map (\<lambda>ds. length (ds_data ds)) (resolvedDatasets ns (parseChartXml xml) g)))))
        (map ds_data (resolvedDatasets ns (parseChartXml xml) g))"
    unfolding buildChartData_Some(2) [OF assms] by (simp add: comp_def)
  then show ?thesis
    by (simp only: resolvedDatasets_data)
qed

theorem chart_data_unstripped_witness:
  "map_option (map ds_data \<circ> cd_datasets)
     (buildChartData decimalString example_series_xml example_grid_money) = Some [[Fin 1]] \<and>
   map unstrippedNumber (extractDataFromSheet example_grid_money ''A1:A2'') = [NaN, Fin 1]"
proof -
  let ?cd = "\<lparr>cd_type = ''bar'', cd_horizontal = False, cd_stacked = False, cd_title = None,
      cd_xAxisTitle = None, cd_yAxisTitle = None, cd_labels = [''1''],
      cd_datasets = [\<lparr>ds_label = ''Series'', ds_data = [Fin 1], ds_color = None\<rparr>]\<rparr>"
  have e: "buildChartData decimalString example_series_xml example_grid_money = Some ?cd"
    by code_simp
  have u: "map unstrippedNumber (extractDataFromSheet example_grid_money ''A1:A2'') = [NaN, Fin 1]"
    by code_simp
  have "map ds_data (cd_datasets ?cd) =
     map (take (Min (set (map (\<lambda>ds. length (ds_data ds))
        (resolvedDatasets decimalString (parseChartXml example_series_xml) example_grid_money)))))
       (filter (\<lambda>d. d \<noteq> [])
          (map (\<lambda>series. filter isFinite (map unstrippedNumber
             (extractDataFromSheet example_grid_money (sr_valueRef series))))
            (pi_seriesRefs (parseChartXml example_series_xml))))"
    by (rule chart_data_unstripped [OF e])
  with e u show ?thesis by simp
qed

text \<open>
  The claim as stated fails: the classifier reads \<^verbatim>\<open>$5\<close> as 5 and \<^verbatim>\<open>1,234\<close> as 1234,
  the builder drops the first and reads the second as 1.
\<close>

theorem chart_data_stripping_counterexample:
  "map extractNumericValue (extractDataFromSheet example_grid_money ''A1:A2'') =
     [Some (Fin 5), Some (Fin 1234)] \<and>
   map_option (map ds_data \<circ> cd_datasets)
     (buildChartData decimalString example_series_xml example_grid_money) = Some [[Fin 1]]"
  by code_simp

subsection \<open>Column type classifier\<close>

lemma reachesThreshold_iff:
  "0 < t \<Longrightarrow> reachesThreshold c t \<longleftrightarrow> 4 * t \<le> 5 * c"
proof -
  assume t: "0 < t"
  have "reachesThreshold c t \<longleftrightarrow> (4 :: rat) * of_nat t \<le> 5 * of_nat c"
    using t by (simp add: reachesThreshold_def field_simps)
  also have "\<dots> \<longleftrightarrow> (of_nat (4 * t) :: rat) \<le> of_nat (5 * c)"
    by simp
  also have "\<dots> \<longleftrightarrow> 4 * t \<le> 5 * c"
    by (simp only: of_nat_le_iff)
  finally show ?thesis .
qed

lemma parseFloat_nonspace: "parseFloat s \<noteq> NaN \<Longrightarrow> \<exists>c \<in> set s. \<not> isSpace c"
proof (cases "dropWhile isSpace s")
  case Nil
  assume "parseFloat s \<noteq> NaN"
  then have False
    unfolding parseFloat_def Nil by simp
  then show ?thesis ..
next
  case (Cons c r)
  then have "c \<in> set s" "\<not> isSpace c"
    using set_dropWhileD [of c isSpace s] hd_dropWhile [of isSpace s] by auto
  then show ?thesis by blast
qed

lemma trim_Nil_iff: "trim s = [] \<longleftrightarrow> (\<forall>c \<in> set s. isSpace c)"
proof
  assume "trim s = []"
  then have a: "\<forall>x \<in> set (dropWhile isSpace s). isSpace x"
    by (simp add: trim_def dropWhile_eq_Nil_conv)
  have "dropWhile isSpace s = []"
  proof (rule ccontr)
    assume n: "dropWhile isSpace s \<noteq> []"
    then have "\<not> isSpace (hd (dropWhile isSpace s))"
      by (rule hd_dropWhile)
    with a n show False
      by (meson hd_in_set)
  qed
  then show "\<forall>c \<in> set s. isSpace c"
    by (simp add: dropWhile_eq_Nil_conv)
next
  assume "\<forall>c \<in> set s. isSpace c"
  then have "dropWhile isSpace s = []"
    by (simp add: dropWhile_eq_Nil_conv)
  then show "trim s = []"
    by (simp only: trim_def rev.simps dropWhile.simps)
qed

lemma strip_true: "parseFloat (filter (\<lambda>c. c \<noteq> CHR '','' \<and> c \<noteq> CHR ''$'' \<and> c \<noteq> CHR ''%'') ''true'') = NaN"
  by code_simp
lemma strip_false: "parseFloat (filter (\<lambda>c. c \<noteq> CHR '','' \<and> c \<noteq> CHR ''$'' \<and> c \<noteq> CHR ''%'') ''false'') = NaN"
  by code_simp
lemma strip_TRUE: "parseFloat (filter (\<lambda>c. c \<noteq> CHR '','' \<and> c \<noteq> CHR ''$'' \<and> c \<noteq> CHR ''%'') ''TRUE'') = NaN"
  by code_simp
lemma strip_FALSE: "parseFloat (filter (\<lambda>c. c \<noteq> CHR '','' \<and> c \<noteq> CHR ''$'' \<and> c \<noteq> CHR ''%'') ''FALSE'') = NaN"
  by code_simp

lemma classifyValue_numeric_iff: "classifyValue v = NumericCount \<longleftrightarrow> numericLike v"
proof (cases v)
  case (Str s)
  let ?t = "filter (\<lambda>c. c \<noteq> CHR '','' \<and> c \<noteq> CHR ''$'' \<and> c \<noteq> CHR ''%'') s"
  have tr: "trim s \<noteq> []" if "parseFloat ?t \<noteq> NaN"
  proof -
    from parseFloat_nonspace [OF that] obtain c where "c \<in> set s" "\<not> isSpace c"
      by auto
    then show ?thesis by (auto simp: trim_Nil_iff)
  qed
  show ?thesis
  proof (cases "s = ''true'' \<or> s = ''false'' \<or> s = ''TRUE'' \<or> s = ''FALSE''")
    case True
    then have "parseFloat ?t = NaN"
      using strip_true strip_false strip_TRUE strip_FALSE by auto
    with True Str show ?thesis
      by (simp add: classifyValue_def numericLike_def)
  next
    case False
    with Str tr show ?thesis
      by (auto simp: classifyValue_def numericLike_def isNaN_def Let_def)
  qed
qed (simp_all add: classifyValue_def numericLike_def isNaN_def)

lemma length_filter_disjoint:
  "(\<And>x. P x \<Longrightarrow> \<not> Q x) \<Longrightarrow> length (filter P xs) + length (filter Q xs) \<le> length xs"
  by (induction xs) auto

lemma other_counter_below:
  assumes "k \<noteq> NumericCount" and "xs \<noteq> []"
    and "4 * length xs \<le> 5 * length (filter (\<lambda>v. classifyValue v = NumericCount) xs)"
  shows "\<not> reachesThreshold (length (filter (\<lambda>v. classifyValue v = k) xs)) (length xs)"
proof -
  have "length (filter (\<lambda>v. classifyValue v = NumericCount) xs) +
      length (filter (\<lambda>v. classifyValue v = k) xs) \<le> length xs"
    using assms(1) by (intro length_filter_disjoint) auto
  moreover have "0 < length xs" using assms(2) by simp
  ultimately show ?thesis
    using assms(3) unfolding reachesThreshold_iff [OF \<open>0 < length xs\<close>] by linarith
qed

lemma set_map_filter: "set (List.map_filter f xs) = {y. \<exists>x \<in> set xs. f x = Some y}"
  by (force simp: List.map_filter_def image_iff)

text \<open>
  Claim C1. For every sample with at least one non-blank value of which at least 80% are
  numeric-like, the classifier returns Categorical when the distinct numeric values of the
  full column are at most 20 and all integers, and Numeric otherwise, in both cases with the
  number of distinct values. A full column with 25 distinct integer values is Numeric.
\<close>

theorem detect_numeric_column:
  assumes "filter nonBlank values \<noteq> []"
    and "4 * length (filter nonBlank values) \<le> 5 * length (filter numericLike (filter nonBlank values))"
  shows "detectColumnType values allValues =
     (if card (set (List.map_filter extractNumericValue allValues)) \<le> 20 \<and>
         (\<forall>n \<in> set (List.map_filter extractNumericValue allValues). isInteger n)
      then (Categorical, Some (card (set (List.map_filter extractNumericValue allValues))))
      else (Numeric, Some (card (set (List.map_filter extractNumericValue allValues)))))"
proof -
  let ?xs = "filter nonBlank values"
  have num: "4 * length ?xs \<le> 5 * length (filter (\<lambda>v. classifyValue v = NumericCount) ?xs)"
    using assms(2) by (simp add: classifyValue_numeric_iff)
  have pos: "0 < length ?xs" using assms(1) by simp
  have b: "\<not> reachesThreshold (length (filter (\<lambda>v. classifyValue v = BooleanCount) ?xs)) (length ?xs)"
    by (rule other_counter_below [OF _ assms(1) num]) simp
  have d: "\<not> reachesThreshold (length (filter (\<lambda>v. classifyValue v = DateCount) ?xs)) (length ?xs)"
    by (rule other_counter_below [OF _ assms(1) num]) simp
  have t: "\<not> reachesThreshold (length (filter (\<lambda>v. classifyValue v = TextCount) ?xs)) (length ?xs)"
    by (rule other_counter_below [OF _ assms(1) num]) simp
  have n: "reachesThreshold (length (filter (\<lambda>v. classifyValue v = NumericCount) ?xs)) (length ?xs)"
    using num pos by (simp add: reachesThreshold_iff)
  have c: "length (remdups ys) = card (set ys)" for ys :: "jsnum list"
    by (simp add: length_remdups_card_conv)
  show ?thesis
    unfolding detectColumnType_def Let_def
    using assms(1) b d t n
    by (simp add: c CATEGORICAL_MAX_UNIQUE_def list_all_iff)
qed

theorem detect_numeric_column_witness:
  "filter nonBlank example_column_25 \<noteq> [] \<and>
   4 * length (filter nonBlank example_column_25) \<le>
     5 * length (filter numericLike (filter nonBlank example_column_25)) \<and>
   detectColumnType example_column_25 example_column_25 = (Numeric, Some 25) \<and>
   filter nonBlank example_column_20 \<noteq> [] \<and>
   4 * length (filter nonBlank example_column_20) \<le>
     5 * length (filter numericLike (filter nonBlank example_column_20)) \<and>
   detectColumnType example_column_20 example_column_20 = (Categorical, Some 20)"
proof -
  have a1: "filter nonBlank example_column_25 \<noteq> []"
    by code_simp
  have a2: "4 * length (filter nonBlank example_column_25) \<le>
     5 * length (filter numericLike (filter nonBlank example_column_25))"
    by code_simp
  have a3: "card (set (List.map_filter extractNumericValue example_column_25)) = 25"
    by code_simp
  have b1: "filter nonBlank example_column_20 \<noteq> []"
    by code_simp
  have b2: "4 * length (filter nonBlank example_column_20) \<le>
     5 * length (filter numericLike (filter nonBlank example_column_20))"
    by code_simp
  have b3: "card (set (List.map_filter extractNumericValue example_column_20)) = 20"
    by code_simp
  have b4: "\<forall>n \<in> set (List.map_filter extractNumericValue example_column_20). isInteger n"
    by code_simp
  have "detectColumnType example_column_25 example_column_25 = (Numeric, Some 25)"
    unfolding detect_numeric_column [OF a1 a2] a3 by simp
  moreover have "detectColumnType example_column_20 example_column_20 = (Categorical, Some 20)"
    unfolding detect_numeric_column [OF b1 b2] b3 using b4 by simp
  ultimately show ?thesis
    using a1 a2 b1 b2 by (intro conjI)
qed

subsection \<open>Removing white space keeps a text numeric\<close>

lemma round_double_not_NaN: "round_double r \<noteq> NaN"
  by (simp add: round_double_def Let_def split: prod.splits)

lemma isDigit_not_space: "isDigit c \<Longrightarrow> \<not> isSpace c"
  by (auto simp: isDigit_def isSpace_def Let_def)

lemma unsignedLiteral_not_NaN_iff:
  "unsignedLiteral u \<noteq> NaN \<longleftrightarrow>
     startsWith u ''Infinity'' \<or> (\<exists>c r. u = c # r \<and> isDigit c) \<or>
     (\<exists>c r. u = CHR ''.'' # c # r \<and> isDigit c)"
proof (cases "startsWith u ''Infinity''")
  case True
  then show ?thesis by (simp add: unsignedLiteral_def)
next
  case False
  show ?thesis
  proof (cases u)
    case Nil
    then show ?thesis by (simp add: unsignedLiteral_def startsWith_def)
  next
    case (Cons c r)
    show ?thesis
    proof (cases "isDigit c")
      case True
      then have "c \<noteq> CHR ''.''" by (auto simp: isDigit_def)
      with True Cons False show ?thesis
        by (auto simp: unsignedLiteral_def Let_def round_double_not_NaN split: list.splits)
    next
      case d: False
      show ?thesis
      proof (cases "c = CHR ''.''")
        case True
        with d Cons False show ?thesis
          by (cases r) (auto simp: unsignedLiteral_def Let_def round_double_not_NaN)
      next
        case False
        with d Cons \<open>\<not> startsWith u ''Infinity''\<close> show ?thesis
          by (auto simp: unsignedLiteral_def Let_def)
      qed
    qed
  qed
qed

lemma unsignedLiteral_filter_space:
  assumes "unsignedLiteral u \<noteq> NaN"
  shows "unsignedLiteral (filter (\<lambda>c. \<not> isSpace c) u) \<noteq> NaN"
proof -
  let ?Q = "\<lambda>c. \<not> isSpace c"
  from assms consider (inf) "startsWith u ''Infinity''" | (dig) c r where "u = c # r" "isDigit c"
    | (dot) c r where "u = CHR ''.'' # c # r" "isDigit c"
    unfolding unsignedLiteral_not_NaN_iff by blast
  then show ?thesis
  proof cases
    case inf
    define n where "n = length ''Infinity''"
    from inf have t: "take n u = ''Infinity''"
      unfolding startsWith_def n_def .
    have "filter ?Q u = filter ?Q (take n u @ drop n u)"
      by simp
    also have "\<dots> = ''Infinity'' @ filter ?Q (drop n u)"
      unfolding filter_append t by (simp add: isSpace_def)
    finally have "startsWith (filter ?Q u) ''Infinity''"
      by (simp add: startsWith_def)
    then show ?thesis
      unfolding unsignedLiteral_not_NaN_iff by blast
  next
    case dig
    then have "filter ?Q u = c # filter ?Q r"
      by (simp add: isDigit_not_space)
    with dig(2) show ?thesis
      unfolding unsignedLiteral_not_NaN_iff by blast
  next
    case dot
    have "\<not> isSpace CHR ''.''"
      by (simp add: isSpace_def)
    with dot have "filter ?Q u = CHR ''.'' # c # filter ?Q r"
      by (simp add: isDigit_not_space)
    with dot(2) show ?thesis
      unfolding unsignedLiteral_not_NaN_iff by blast
  qed
qed

lemma negate_NaN_iff: "negate n = NaN \<longleftrightarrow> n = NaN"
  by (cases n) (simp_all add: negate_def)

lemma parseFloat_filter_space:
  assumes "parseFloat t \<noteq> NaN"
  shows "parseFloat (filter (\<lambda>c. \<not> isSpace c) t) \<noteq> NaN"
proof (cases "dropWhile isSpace t")
  case Nil
  from assms have False
    unfolding parseFloat_def Nil by simp
  then show ?thesis ..
next
  case (Cons c r)
  let ?Q = "\<lambda>c. \<not> isSpace c"
  have c: "\<not> isSpace c"
    using Cons dropWhile_eq_Cons_conv [of isSpace t c r] by blast
  have "filter ?Q (takeWhile isSpace t) = []"
    by (auto simp: filter_empty_conv dest: set_takeWhileD)
  then have "filter ?Q (takeWhile isSpace t @ dropWhile isSpace t) = filter ?Q (c # r)"
    unfolding filter_append Cons by simp
  then have f: "filter ?Q t = c # filter ?Q r"
    using c by simp
  have d: "dropWhile isSpace (c # filter ?Q r) = c # filter ?Q r"
    using c by simp
  from assms have a: "(if c = CHR ''-'' then negate (unsignedLiteral r)
      else if c = CHR ''+'' then unsignedLiteral r else unsignedLiteral (c # r)) \<noteq> NaN"
    unfolding parseFloat_def Cons by simp
  have "(if c = CHR ''-'' then negate (unsignedLiteral (filter ?Q r))
      else if c = CHR ''+'' then unsignedLiteral (filter ?Q r)
      else unsignedLiteral (c # filter ?Q r)) \<noteq> NaN"
  proof (cases "c = CHR ''-''")
    case True
    with a have "unsignedLiteral r \<noteq> NaN"
      by (simp add: negate_NaN_iff)
    from unsignedLiteral_filter_space [OF this] True show ?thesis
      by (simp add: negate_NaN_iff)
  next
    case m: False
    show ?thesis
    proof (cases "c = CHR ''+''")
      case True
      with a m have "unsignedLiteral r \<noteq> NaN"
        by simp
      from unsignedLiteral_filter_space [OF this] True m show ?thesis
        by simp
    next
      case False
      with a m have "unsignedLiteral (c # r) \<noteq> NaN" by simp
      from unsignedLiteral_filter_space [OF this] c m False show ?thesis
        by simp
    qed
  qed
  then show ?thesis
    unfolding parseFloat_def f d by simp
qed

lemma numericLike_extract:
  assumes "numericLike v"
  shows "extractNumericValue v \<noteq> None"
proof (cases v)
  case (Str s)
  let ?P1 = "\<lambda>c. c \<noteq> CHR '','' \<and> c \<noteq> CHR ''$'' \<and> c \<noteq> CHR ''%''"
  have "filter (\<lambda>c. c \<noteq> CHR '','' \<and> c \<noteq> CHR ''$'' \<and> c \<noteq> CHR ''%'' \<and> \<not> isSpace c) s =
      filter (\<lambda>c. \<not> isSpace c) (filter ?P1 s)"
    by (simp add: conj_assoc)
  moreover have "parseFloat (filter ?P1 s) \<noteq> NaN"
    using assms Str by (simp add: numericLike_def)
  ultimately show ?thesis
    using Str parseFloat_filter_space [of "filter ?P1 s"]
    by (simp add: extractNumericValue_def Let_def isNaN_def)
qed (use assms in \<open>simp_all add: numericLike_def extractNumericValue_def isNaN_def\<close>)

subsection \<open>Workbook analysis\<close>

lemma detect_unique:
  assumes "detectColumnType vs avs = (t, uc)"
  shows "uc \<noteq> None \<longleftrightarrow> t = Numeric \<or> t = Categorical"
    and "uc = Some u \<Longrightarrow>
      u = card (set (List.map_filter extractNumericValue avs)) \<and> (\<exists>v \<in> set vs. numericLike v)"
proof -
  let ?xs = "filter nonBlank vs"
  let ?k = "length (filter (\<lambda>v. classifyValue v = NumericCount) ?xs)"
  have c: "length (remdups ys) = card (set ys)" for ys :: "jsnum list"
    by (simp add: length_remdups_card_conv)
  show "uc \<noteq> None \<longleftrightarrow> t = Numeric \<or> t = Categorical"
    using assms unfolding detectColumnType_def Let_def
    by (auto split: if_splits)
  assume u: "uc = Some u"
  with assms have r: "?xs \<noteq> []" "reachesThreshold ?k (length ?xs)"
    unfolding detectColumnType_def Let_def by (auto split: if_splits)
  have "0 < ?k"
  proof -
    from r(1) have p: "0 < length ?xs" by simp
    from r(2) have "4 * length ?xs \<le> 5 * ?k"
      unfolding reachesThreshold_iff [OF p] .
    with p show ?thesis by linarith
  qed
  then have "filter (\<lambda>v. classifyValue v = NumericCount) ?xs \<noteq> []"
    by (metis length_greater_0_conv)
  then obtain v where "v \<in> set ?xs" "classifyValue v = NumericCount"
    by (auto simp: filter_empty_conv)
  then have "\<exists>v \<in> set vs. numericLike v"
    by (auto simp: classifyValue_numeric_iff)
  moreover from assms u have "u = card (set (List.map_filter extractNumericValue avs))"
    unfolding detectColumnType_def Let_def by (auto simp: c split: if_splits)
  ultimately show "u = card (set (List.map_filter extractNumericValue avs)) \<and>
      (\<exists>v \<in> set vs. numericLike v)"
    by blast
qed

lemma numeric_sample_positive:
  assumes "v \<in> set vs" and "numericLike v" and "set vs \<subseteq> set avs"
  shows "1 \<le> card (set (List.map_filter extractNumericValue avs))"
proof -
  from numericLike_extract [OF assms(2)] obtain n where "extractNumericValue v = Some n"
    by auto
  with assms(1,3) have "n \<in> set (List.map_filter extractNumericValue avs)"
    by (auto simp: set_map_filter)
  then have "0 < card (set (List.map_filter extractNumericValue avs))"
    by (auto simp: card_gt_0_iff)
  then show ?thesis by simp
qed

lemma update_set_subset: "set (AList.update k v al) \<subseteq> insert (k, v) (set al)"
  by (induction al) auto

lemma foldl_update_entries:
  "(k, v) \<in> set (foldl (\<lambda>columns i. AList.update (f i) (g i) columns) acc idxs) \<Longrightarrow>
   (k, v) \<in> set acc \<or> (\<exists>i \<in> set idxs. k = f i \<and> v = g i)"
proof (induction idxs arbitrary: acc)
  case Nil
  then show ?case by simp
next
  case (Cons i idxs)
  from Cons.IH [of "AList.update (f i) (g i) acc"] Cons.prems
  have "(k, v) \<in> set (AList.update (f i) (g i) acc) \<or> (\<exists>j \<in> set idxs. k = f j \<and> v = g j)"
    by simp
  then show ?case
    using update_set_subset [of "f i" "g i" acc] by auto
qed

lemma columnInfo_detect:
  "detectColumnType (map (\<lambda>row. elemAt row i) (take SAMPLE_SIZE rows)) (map (\<lambda>row. elemAt row i) rows) =
     (ci_type (columnInfo h rows i), ci_uniqueValues (columnInfo h rows i))"
  by (simp add: columnInfo_def Let_def split: prod.splits)

lemma analyzeSheet_columns:
  assumes "analyzeSheet ns (name, data) = Some sheet" and "(letter, col) \<in> set (ss_columns sheet)"
  shows "ss_name sheet = name"
    and "\<exists>colIdx h. letter = getColumnLetter (int colIdx) \<and> col = columnInfo h (drop 1 data) colIdx"
proof -
  show "ss_name sheet = name"
    using assms(1) by (auto simp: analyzeSheet_def Let_def split: if_splits)
  from assms(1) obtain h idxs where
    "ss_columns sheet = foldl (\<lambda>columns colIdx.
        AList.update (getColumnLetter (int colIdx)) (columnInfo h (drop 1 data) colIdx) columns) [] idxs"
    by (auto simp: analyzeSheet_def Let_def split: if_splits)
  with assms(2) foldl_update_entries [of letter col "\<lambda>i. getColumnLetter (int i)"
      "\<lambda>i. columnInfo h (drop 1 data) i" "[]" idxs]
  show "\<exists>colIdx h. letter = getColumnLetter (int colIdx) \<and> col = columnInfo h (drop 1 data) colIdx"
    by auto
qed

lemma analyze_Inr_sheets:
  "analyzeExcelStructure ns filename wb = Inr summary \<Longrightarrow>
   ws_sheets summary = List.map_filter (analyzeSheet ns) wb"
  by (auto simp: analyzeExcelStructure_def Let_def split: if_splits)

text \<open>
  Claim C10. For every sheet of a workbook summary and every column of the sheet, the
  unique-value count is present exactly when the type of the column is Numeric or
  Categorical; when present it is at least 1 and equals the number of distinct numeric
  values extracted from the full column of that sheet.
\<close>

theorem unique_count_invariant:
  assumes "analyzeExcelStructure ns filename wb = Inr summary"
    and "sheet \<in> set (ws_sheets summary)"
    and "(letter, col) \<in> set (ss_columns sheet)"
  shows "(ci_uniqueValues col \<noteq> None \<longleftrightarrow> ci_type col = Numeric \<or> ci_type col = Categorical) \<and>
         (\<forall>u. ci_uniqueValues col = Some u \<longrightarrow>
            1 \<le> u \<and>
            (\<exists>(name, data) \<in> set wb. \<exists>colIdx.
                name = ss_name sheet \<and> letter = getColumnLetter (int colIdx) \<and>
                u = card (set (List.map_filter extractNumericValue
                      (map (\<lambda>row. elemAt row colIdx) (drop 1 data))))))"
proof -
  from assms(1,2) obtain name data where s: "(name, data) \<in> set wb"
      "analyzeSheet ns (name, data) = Some sheet"
    by (auto simp: analyze_Inr_sheets set_map_filter)
  from analyzeSheet_columns [OF s(2) assms(3)] obtain colIdx h where
    n: "ss_name sheet = name" and l: "letter = getColumnLetter (int colIdx)"
    and c: "col = columnInfo h (drop 1 data) colIdx"
    by auto
  let ?all = "map (\<lambda>row. elemAt row colIdx) (drop 1 data)"
  let ?sample = "map (\<lambda>row. elemAt row colIdx) (take SAMPLE_SIZE (drop 1 data))"
  have d: "detectColumnType ?sample ?all = (ci_type col, ci_uniqueValues col)"
    unfolding c by (rule columnInfo_detect)
  have sub: "set ?sample \<subseteq> set ?all"
    by (auto dest: in_set_takeD)
  have "1 \<le> u \<and> u = card (set (List.map_filter extractNumericValue ?all))"
    if "ci_uniqueValues col = Some u" for u
    using detect_unique(2) [OF d that] numeric_sample_positive [OF _ _ sub] by blast
  with s(1) n l have "\<forall>u. ci_uniqueValues col = Some u \<longrightarrow>
            1 \<le> u \<and>
            (\<exists>(name, data) \<in> set wb. \<exists>colIdx.
                name = ss_name sheet \<and> letter = getColumnLetter (int colIdx) \<and>
                u = card (set (List.map_filter extractNumericValue
                      (map (\<lambda>row. elemAt row colIdx) (drop 1 data)))))"
    by blast
  with detect_unique(1) [OF d] show ?thesis by blast
qed

theorem unique_count_invariant_witness:
  "analyzeExcelStructure decimalString ''scores.csv'' [example_scores_sheet] =
     Inr \<lparr>ws_workbook = ''scores'',
          ws_sheets = [\<lparr>ss_name = ''Sheet1'', ss_rowCount = 3,
            ss_columns = [(''A'', \<lparr>ci_header = ''Name'', ci_type = Text, ci_uniqueValues = None\<rparr>),
              (''B'', \<lparr>ci_header = ''Score'', ci_type = Categorical, ci_uniqueValues = Some 3\<rparr>)]\<rparr>],
          ws_codebook = None\<rparr> \<and>
   card (set (List.map_filter extractNumericValue
      (map (\<lambda>row. elemAt row 1) (drop 1 (snd example_scores_sheet))))) = 3 \<and>
   (ci_uniqueValues \<lparr>ci_header = ''Score'', ci_type = Categorical, ci_uniqueValues = Some 3\<rparr> \<noteq> None
      \<longleftrightarrow> ci_type \<lparr>ci_header = ''Score'', ci_type = Categorical, ci_uniqueValues = Some 3\<rparr> = Numeric \<or>
          ci_type \<lparr>ci_header = ''Score'', ci_type = Categorical, ci_uniqueValues = Some 3\<rparr> = Categorical)"
proof -
  let ?colB = "\<lparr>ci_header = ''Score'', ci_type = Categorical, ci_uniqueValues = Some 3\<rparr>"
  let ?sheet = "\<lparr>ss_name = ''Sheet1'', ss_rowCount = 3,
            ss_columns = [(''A'', \<lparr>ci_header = ''Name'', ci_type = Text, ci_uniqueValues = None\<rparr>),
              (''B'', ?colB)]\<rparr>"
  let ?summary = "\<lparr>ws_workbook = ''scores'', ws_sheets = [?sheet], ws_codebook = None\<rparr>"
  have e: "analyzeExcelStructure decimalString ''scores.csv'' [example_scores_sheet] = Inr ?summary"
    by code_simp
  have m1: "?sheet \<in> set (ws_sheets ?summary)"
    by simp
  have m2: "(''B'', ?colB) \<in> set (ss_columns ?sheet)"
    by simp
  have c: "card (set (List.map_filter extractNumericValue
      (map (\<lambda>row. elemAt row 1) (drop 1 (snd example_scores_sheet))))) = 3"
    by code_simp
  from unique_count_invariant [OF e m1 m2]
  have "ci_uniqueValues ?colB \<noteq> None \<longleftrightarrow> ci_type ?colB = Numeric \<or> ci_type ?colB = Categorical"
    by (rule conjunct1)
  with e c show ?thesis by (intro conjI)
qed

lemma analyzeSheet_None_iff: "analyzeSheet ns (name, data) = None \<longleftrightarrow> skippedSheet data"
  by (auto simp: analyzeSheet_def skippedSheet_def nonEmptyColumn_def Let_def filter_empty_conv
      list_ex_iff)

lemma analyzeSheet_name: "analyzeSheet ns (name, data) = Some sheet \<Longrightarrow> ss_name sheet = name"
  by (auto simp: analyzeSheet_def Let_def split: if_splits)

lemma map_filter_Cons:
  "List.map_filter f (x # xs) = (case f x of None \<Rightarrow> List.map_filter f xs | Some y \<Rightarrow> y # List.map_filter f xs)"
  by (simp add: List.map_filter_def split: option.splits)

lemma valid_sheet_names:
  "map ss_name (List.map_filter (analyzeSheet ns) wb) =
   map fst (filter (\<lambda>(name, data). \<not> skippedSheet data) wb)"
proof (induction wb)
  case Nil
  then show ?case by (simp add: List.map_filter_def)
next
  case (Cons s wb)
  obtain name data where s: "s = (name, data)" by (cases s)
  show ?case
  proof (cases "analyzeSheet ns (name, data)")
    case None
    then have "skippedSheet data" by (simp add: analyzeSheet_None_iff)
    with None Cons s show ?thesis by (simp add: map_filter_Cons)
  next
    case (Some sheet)
    then have "\<not> skippedSheet data"
      using analyzeSheet_None_iff [of ns name data] by simp
    with Some Cons s analyzeSheet_name [OF Some] show ?thesis
      by (simp add: map_filter_Cons)
  qed
qed

text \<open>
  Claim C4. When every sheet of the workbook is skipped (fewer than two rows, or no
  non-empty data column), the analysis ends with the error for no valid sheets and gives no
  summary. A skipped sheet alone is no error: when some sheet is not skipped, the analysis
  gives a summary whose sheets are the sheets that are not skipped, in order.
\<close>

theorem no_valid_sheets:
  "((\<forall>(name, data) \<in> set wb. skippedSheet data) \<longrightarrow>
      analyzeExcelStructure ns filename wb = Inl NoValidSheets) \<and>
   ((\<exists>(name, data) \<in> set wb. \<not> skippedSheet data) \<longrightarrow>
      (\<exists>summary. analyzeExcelStructure ns filename wb = Inr summary \<and>
         map ss_name (ws_sheets summary) =
           map fst (filter (\<lambda>(name, data). \<not> skippedSheet data) wb)))"
proof -
  let ?valid = "filter (\<lambda>(name, data). \<not> skippedSheet data) wb"
  have l: "length (List.map_filter (analyzeSheet ns) wb) = length ?valid"
    using valid_sheet_names [of ns wb] by (metis length_map)
  have a: "analyzeExcelStructure ns filename wb = Inl NoValidSheets" if "?valid = []"
    using that l by (simp add: analyzeExcelStructure_def Let_def)
  have b: "\<exists>summary. analyzeExcelStructure ns filename wb = Inr summary \<and>
      map ss_name (ws_sheets summary) = map fst ?valid" if "?valid \<noteq> []"
  proof -
    from that l have "List.map_filter (analyzeSheet ns) wb \<noteq> []"
      by (metis length_0_conv)
    then show ?thesis
      using valid_sheet_names [of ns wb] by (simp add: analyzeExcelStructure_def Let_def)
  qed
  have "?valid = []" if "\<forall>(name, data) \<in> set wb. skippedSheet data"
    using that by (auto simp: filter_empty_conv)
  moreover have "?valid \<noteq> []" if "\<exists>(name, data) \<in> set wb. \<not> skippedSheet data"
    using that by (auto simp: filter_empty_conv)
  ultimately show ?thesis using a b by blast
qed

theorem no_valid_sheets_witness:
  "analyzeExcelStructure decimalString ''empty.xlsx'' example_workbook_skipped = Inl NoValidSheets \<and>
   map_sum id (map ss_name \<circ> ws_sheets)
     (analyzeExcelStructure decimalString ''scores.xlsx''
        (example_workbook_skipped @ [example_scores_sheet])) = Inr [''Sheet1'']"
proof -
  let ?wb = "example_workbook_skipped @ [example_scores_sheet]"
  have h1: "\<forall>(name, data) \<in> set example_workbook_skipped. skippedSheet data"
    by code_simp
  have h2: "\<exists>(name, data) \<in> set ?wb. \<not> skippedSheet data"
    by code_simp
  have v: "map fst (filter (\<lambda>(name, data). \<not> skippedSheet data) ?wb) = [''Sheet1'']"
    by code_simp
  have a: "analyzeExcelStructure decimalString ''empty.xlsx'' example_workbook_skipped = Inl NoValidSheets"
    by (rule no_valid_sheets [THEN conjunct1, THEN mp, OF h1])
  have "\<exists>summary. analyzeExcelStructure decimalString ''scores.xlsx'' ?wb = Inr summary \<and>
      map ss_name (ws_sheets summary) = map fst (filter (\<lambda>(name, data). \<not> skippedSheet data) ?wb)"
    by (rule no_valid_sheets [THEN conjunct2, THEN mp, OF h2])
  then obtain summary where s: "analyzeExcelStructure decimalString ''scores.xlsx'' ?wb = Inr summary"
    "map ss_name (ws_sheets summary) = [''Sheet1'']"
    unfolding v by (elim exE conjE)
  have "map_sum id (map ss_name \<circ> ws_sheets)
     (analyzeExcelStructure decimalString ''scores.xlsx'' ?wb) = Inr [''Sheet1'']"
    unfolding s(1) using s(2) by simp
  with a show ?thesis by (intro conjI)
qed

subsection \<open>Codebook extraction\<close>

lemma map_of_setProperty_other: "k' \<noteq> k \<Longrightarrow> map_of (setProperty cb k' v') k = map_of cb k"
  by (simp add: setProperty_def update_conv')

lemma map_of_setProperty_same: "k \<noteq> ''__proto__'' \<Longrightarrow> map_of (setProperty cb k v) k = Some v"
  by (simp add: setProperty_def update_conv')

lemma foldl_later_rows:
  assumes "\<forall>r \<in> set post. \<forall>v'. rowEntry ns r \<noteq> Some (k, v')"
  shows "map_of (foldl (\<lambda>codebook row.
             case rowEntry ns row of
               None \<Rightarrow> codebook
             | Some (key, v) \<Rightarrow> setProperty codebook key v) cb post) k = map_of cb k"
  using assms
proof (induction post arbitrary: cb)
  case Nil
  then show ?case by simp
next
  case (Cons r post)
  show ?case
  proof (cases "rowEntry ns r")
    case None
    with Cons show ?thesis by simp
  next
    case (Some e)
    obtain k' v' where e: "e = (k', v')" by (cases e)
    with Some Cons.prems have "k' \<noteq> k" by auto
    with Some e Cons show ?thesis
      by (simp add: map_of_setProperty_other)
  qed
qed

lemma rowEntry_column_letter:
  assumes "2 \<le> length row" and "columnLetterPattern (firstCell ns row)"
    and "secondCell ns row \<noteq> []"
    and "\<not> includes_str (toLowerCase (secondCell ns row)) ''variable''"
  shows "rowEntry ns row =
     Some (secondCell ns row,
           if thirdCell ns row \<noteq> [] then thirdCell ns row else secondCell ns row)"
  using assms by (simp add: rowEntry_def Let_def)

text \<open>
  Claim C7, as amended. In a description sheet of at least two rows, take a row of at least
  two cells whose first cell matches the pattern \<^verbatim>\<open>column <letter>\<close>, whose second cell
  has a text that is not empty, is not \<^verbatim>\<open>__proto__\<close> and does not contain
  \<^verbatim>\<open>variable\<close> (such a row counts as a header and is passed over), and whose key is
  not assigned again by a later row. Then a codebook is returned, and it maps the text of
  the second cell to the text of the third cell, or to the text of the second cell when the
  third is missing or empty. The two rows \<^verbatim>\<open>Column A, Age, Age in years\<close> and
  \<^verbatim>\<open>Column B, Sex, M/F\<close> give exactly the codebook of \<^verbatim>\<open>Age\<close> and \<^verbatim>\<open>Sex\<close>.
\<close>

theorem codebook_column_letter_row:
  assumes "2 \<le> length data" and "data = pre @ row # post"
    and "2 \<le> length row"
    and "columnLetterPattern (firstCell ns row)"
    and "secondCell ns row \<noteq> []" and "secondCell ns row \<noteq> ''__proto__''"
    and "\<not> includes_str (toLowerCase (secondCell ns row)) ''variable''"
    and "\<forall>r \<in> set post. \<forall>v'. rowEntry ns r \<noteq> Some (secondCell ns row, v')"
  shows "\<exists>codebook. extractCodebook ns data = Some codebook \<and>
           map_of codebook (secondCell ns row) =
             Some (if thirdCell ns row \<noteq> [] then thirdCell ns row else secondCell ns row)"
proof -
  let ?step = "\<lambda>codebook row.
             case rowEntry ns row of
               None \<Rightarrow> codebook
             | Some (key, v) \<Rightarrow> setProperty codebook key v"
  let ?k = "secondCell ns row"
  let ?v = "if thirdCell ns row \<noteq> [] then thirdCell ns row else secondCell ns row"
  have e: "rowEntry ns row = Some (?k, ?v)"
    by (rule rowEntry_column_letter) (use assms in auto)
  have "foldl ?step [] data = foldl ?step (?step (foldl ?step [] pre) row) post"
    unfolding assms(2) by simp
  then have "map_of (foldl ?step [] data) ?k = map_of (?step (foldl ?step [] pre) row) ?k"
    using foldl_later_rows [OF assms(8)] by simp
  also have "\<dots> = Some ?v"
    unfolding e using assms(6) by (simp add: map_of_setProperty_same)
  finally have m: "map_of (foldl ?step [] data) ?k = Some ?v" .
  then have "foldl ?step [] data \<noteq> []"
    by auto
  with m assms(1) show ?thesis
    by (simp add: extractCodebook_def Let_def)
qed

theorem codebook_column_letter_row_witness:
  "extractCodebook decimalString example_description_sheet =
     Some [(''Age'', ''Age in years''), (''Sex'', ''M/F'')] \<and>
   columnLetterPattern (firstCell decimalString [Str ''Column A'', Str ''Age'', Str ''Age in years'']) \<and>
   rowEntry decimalString [Str ''Column B'', Str ''Sex'', Str ''M/F''] = Some (''Sex'', ''M/F'') \<and>
   map_of [(''Age'', ''Age in years''), (''Sex'', ''M/F'')] ''Age'' = Some ''Age in years''"
proof -
  let ?row = "[Str ''Column A'', Str ''Age'', Str ''Age in years'']"
  let ?row2 = "[Str ''Column B'', Str ''Sex'', Str ''M/F'']"
  have r: "extractCodebook decimalString example_description_sheet =
     Some [(''Age'', ''Age in years''), (''Sex'', ''M/F'')]"
    by code_simp
  have h1: "2 \<le> length example_description_sheet" by code_simp
  have h2: "example_description_sheet = [] @ ?row # [?row2]"
    by (simp add: example_description_sheet_def)
  have h3: "2 \<le> length ?row" by simp
  have h4: "columnLetterPattern (firstCell decimalString ?row)" by code_simp
  have s: "secondCell decimalString ?row = ''Age''" by code_simp
  have t: "thirdCell decimalString ?row = ''Age in years''" by code_simp
  have h7: "\<not> includes_str (toLowerCase ''Age'') ''variable''" by code_simp
  have e2: "rowEntry decimalString ?row2 = Some (''Sex'', ''M/F'')" by code_simp
  have h8: "\<forall>r \<in> set [?row2]. \<forall>v'. rowEntry decimalString r \<noteq> Some (secondCell decimalString ?row, v')"
    unfolding s using e2 by simp
  from codebook_column_letter_row [OF h1 h2 h3 h4 _ _ _ h8]
  have "\<exists>codebook. extractCodebook decimalString example_description_sheet = Some codebook \<and>
      map_of codebook ''Age'' = Some ''Age in years''"
    unfolding s t using h7 by simp
  with r have "map_of [(''Age'', ''Age in years''), (''Sex'', ''M/F'')] ''Age'' = Some ''Age in years''"
    by simp
  with r h4 e2 show ?thesis by (intro conjI)
qed

text \<open>
  The claim as stated fails: the first row below matches the pattern and has a second
  cell, but it counts as a header, and the codebook has no entry for it.
\<close>

theorem codebook_header_row_counterexample:
  "columnLetterPattern (firstCell decimalString [Str ''Column A'', Str ''Variable'', Str ''Name of the variable'']) \<and>
   secondCell decimalString [Str ''Column A'', Str ''Variable'', Str ''Name of the variable''] = ''Variable'' \<and>
   extractCodebook decimalString example_description_header = Some [(''Sex'', ''M/F'')]"
  by code_simp

end
